theory Spec2Isabelle
  imports Complex_Main "HOL-Library.Log_Nat" "HOL-Library.Word"
begin

section \<open>JavaScript values\<close>

text \<open>
  The model of \<^verbatim>\<open>src/Tilemap/Layer.js\<close> (YED.Tilemap.Layer). Numbers that are integers in
  the source (tile IDs, grid and tile sizes, indices, pixel sizes, scroll speeds) are
  \<^typ>\<open>int\<close>, as long as they stay in the range a JavaScript number holds exactly. The values an
  arithmetic operator produces on them are \<open>jsnum\<close>: a finite integer, NaN or an infinity,
  because \<^verbatim>\<open>%\<close> and \<^verbatim>\<open>/\<close> by zero do not fail in JavaScript. The coordinates of an object may
  be fractions: they are double-precision numbers, \<open>jsdouble\<close>, and their subtraction rounds as
  IEEE 754 arithmetic does. The only error the source can raise is the TypeError of a
  property read or a method call on \<^verbatim>\<open>null\<close>/\<^verbatim>\<open>undefined\<close> (or of calling something that is not
  a function).
\<close>

datatype error = TypeError

datatype jsnum = Fin int | NaN | PosInf | NegInf

text \<open>
  A JavaScript string is a sequence of 16-bit code units; \<open>jsstr\<close> gives the string of a text
  written in ASCII.
\<close>

type_synonym jsstring = "16 word list"

definition jsstr :: "string \<Rightarrow> jsstring" where
  "jsstr s = map of_char s"

text \<open>
  The values a property of the layer's property bag, or an expression used as a condition,
  can hold. \<open>JNum n\<close> is a number that is a 32-bit integer, the integer property of the Tiled
  format, read as signed; other numbers are not among the values. \<open>JFun f\<close> is the function
  object of the method named \<open>f\<close>.
\<close>

datatype jsval = JUndefined | JNull | JBool bool | JNum "32 word" | JStr jsstring | JFun string

text \<open>ToBoolean, written \<^verbatim>\<open>!!v\<close> or used by \<^verbatim>\<open>if (v)\<close> in the source.\<close>

fun truthy :: "jsval \<Rightarrow> bool" where
  "truthy JUndefined = False"
| "truthy JNull = False"
| "truthy (JBool b) = b"
| "truthy (JNum n) = (n \<noteq> 0)"
| "truthy (JStr s) = (s \<noteq> [])"
| "truthy (JFun f) = True"


subsection \<open>Arithmetic operators\<close>


text \<open>\<^verbatim>\<open>a * b\<close> on numbers.\<close>

fun js_mul :: "jsnum \<Rightarrow> jsnum \<Rightarrow> jsnum" where
  "js_mul (Fin a) (Fin b) = Fin (a * b)"
| "js_mul NaN b = NaN"
| "js_mul a NaN = NaN"
| "js_mul PosInf (Fin b) = (if b = 0 then NaN else if 0 < b then PosInf else NegInf)"
| "js_mul NegInf (Fin b) = (if b = 0 then NaN else if 0 < b then NegInf else PosInf)"
| "js_mul (Fin a) PosInf = (if a = 0 then NaN else if 0 < a then PosInf else NegInf)"
| "js_mul (Fin a) NegInf = (if a = 0 then NaN else if 0 < a then NegInf else PosInf)"
| "js_mul PosInf PosInf = PosInf"
| "js_mul NegInf NegInf = PosInf"
| "js_mul PosInf NegInf = NegInf"
| "js_mul NegInf PosInf = NegInf"

text \<open>
  \<^verbatim>\<open>a % b\<close>: the remainder of the truncating division, which takes the sign of the dividend
  \<open>a\<close>; NaN when \<open>b\<close> is zero or \<open>a\<close> is infinite; \<open>a\<close> itself when only \<open>b\<close> is infinite.
\<close>

fun js_rem :: "jsnum \<Rightarrow> jsnum \<Rightarrow> jsnum" where
  "js_rem (Fin a) (Fin b) = (if b = 0 then NaN else Fin (sgn a * (\<bar>a\<bar> mod \<bar>b\<bar>)))"
| "js_rem (Fin a) PosInf = Fin a"
| "js_rem (Fin a) NegInf = Fin a"
| "js_rem a b = NaN"

text \<open>
  \<^verbatim>\<open>Math.floor(a / b)\<close>, as one operation because the quotient itself need not be an integer.
  On integers \<open>div\<close> rounds towards minus infinity, as the floor of the exact quotient does.
\<close>

fun js_floor_div :: "jsnum \<Rightarrow> jsnum \<Rightarrow> jsnum" where
  "js_floor_div (Fin a) (Fin b) =
     (if b = 0 then (if a = 0 then NaN else if 0 < a then PosInf else NegInf)
      else Fin (a div b))"
| "js_floor_div NaN b = NaN"
| "js_floor_div a NaN = NaN"
| "js_floor_div (Fin a) PosInf = Fin 0"
| "js_floor_div (Fin a) NegInf = Fin 0"
| "js_floor_div PosInf (Fin b) = (if 0 \<le> b then PosInf else NegInf)"
| "js_floor_div NegInf (Fin b) = (if 0 \<le> b then NegInf else PosInf)"
| "js_floor_div a b = NaN"

subsection \<open>Double-precision numbers\<close>

text \<open>
  A double-precision number (IEEE 754 binary64): a finite one by its exact value, NaN or an
  infinity. The sign of zero is not kept: nothing in the source tells the two zeros apart.
\<close>

datatype jsdouble = Dbl rat | DNaN | DPosInf | DNegInf

text \<open>
  The exponent of a rational that is not zero, the \<open>k\<close> with \<open>2^k \<le> |q| < 2^(k+1)\<close>: from the
  number of bits of the integer part, or of the reciprocal when \<open>|q| < 1\<close>.
\<close>

definition ilog2 :: "rat \<Rightarrow> int" where
  "ilog2 q = (if 1 \<le> \<bar>q\<bar> then bitlen \<lfloor>\<bar>q\<bar>\<rfloor> - 1 else - bitlen (\<lceil>1 / \<bar>q\<bar>\<rceil> - 1))"

text \<open>The nearest integer, a tie going to the even one.\<close>

definition roundHalfEven :: "rat \<Rightarrow> int" where
  "roundHalfEven r =
     (let f = \<lfloor>r\<rfloor>; d = r - of_int f
      in if d < 1 / 2 then f else if 1 / 2 < d then f + 1 else if even f then f else f + 1)"

text \<open>
  The double nearest to a rational, a tie going to the even significand: the value a number
  written in the layer data has in the program, and the result of an arithmetic operation
  whose exact result is that rational. The significand has 53 bits; exponents below -1022
  share the spacing \<open>2^-1074\<close> of the subnormal numbers; a result of magnitude \<open>2^1024\<close> or
  more is an infinity.
\<close>

definition toDouble :: "rat \<Rightarrow> jsdouble" where
  "toDouble q =
     (if q = 0 then Dbl 0
      else (let e = max (ilog2 q) (- 1022);
                u = 2 powi (e - 52);
                r = of_int (roundHalfEven (q / u)) * u
            in if 2 powi 1024 \<le> \<bar>r\<bar> then (if 0 < q then DPosInf else DNegInf) else Dbl r))"

text \<open>\<^verbatim>\<open>a - b\<close> on doubles: the exact difference, rounded.\<close>

fun js_sub :: "jsdouble \<Rightarrow> jsdouble \<Rightarrow> jsdouble" where
  "js_sub (Dbl a) (Dbl b) = toDouble (a - b)"
| "js_sub DNaN b = DNaN"
| "js_sub a DNaN = DNaN"
| "js_sub DPosInf DPosInf = DNaN"
| "js_sub DNegInf DNegInf = DNaN"
| "js_sub DPosInf b = DPosInf"
| "js_sub DNegInf b = DNegInf"
| "js_sub a DPosInf = DNegInf"
| "js_sub a DNegInf = DPosInf"

text \<open>
  \<^verbatim>\<open>Math.round(x)\<close>: the integer nearest to the double \<open>x\<close>, a tie going towards plus
  infinity; no rounding error arises, the result is a double again.
\<close>

fun Math_round :: "jsdouble \<Rightarrow> jsnum" where
  "Math_round (Dbl q) = Fin \<lfloor>q + 1 / 2\<rfloor>"
| "Math_round DNaN = NaN"
| "Math_round DPosInf = PosInf"
| "Math_round DNegInf = NegInf"

text \<open>ToNumber of a field that may be \<^verbatim>\<open>undefined\<close>.\<close>

fun ToNumber :: "int option \<Rightarrow> jsnum" where
  "ToNumber None = NaN"
| "ToNumber (Some n) = Fin n"

subsection \<open>parseInt\<close>

text \<open>
  \<^verbatim>\<open>parseInt(v)\<close> with no radix: leading white space is dropped, then an optional sign, then
  an optional \<^verbatim>\<open>0x\<close>/\<^verbatim>\<open>0X\<close> prefix that selects radix 16 (radix 10 otherwise), then the longest
  run of digits of that radix; NaN when that run is empty. White space is what the language
  standard lists: tab, line feed, vertical tab, form feed, carriage return, space, U+00A0,
  U+1680, U+2000 to U+200A, U+2028, U+2029, U+202F, U+205F, U+3000 and U+FEFF (U+180E, a
  space separator only before Unicode 6.3, is not among them).
\<close>

definition isStrWhiteSpaceChar :: "16 word \<Rightarrow> bool" where
  "isStrWhiteSpaceChar c =
     (let n = unat c in
      (9 \<le> n \<and> n \<le> 13) \<or> n = 32 \<or> n = 160 \<or> n = 5760 \<or> (8192 \<le> n \<and> n \<le> 8202)
      \<or> n = 8232 \<or> n = 8233 \<or> n = 8239 \<or> n = 8287 \<or> n = 12288 \<or> n = 65279)"

definition digitValue :: "16 word \<Rightarrow> nat option" where
  "digitValue c =
     (let n = unat c in
      if 48 \<le> n \<and> n \<le> 57 then Some (n - 48)
      else if 97 \<le> n \<and> n \<le> 122 then Some (n - 87)
      else if 65 \<le> n \<and> n \<le> 90 then Some (n - 55)
      else None)"

definition radixDigit :: "nat \<Rightarrow> 16 word \<Rightarrow> nat option" where
  "radixDigit R c =
     (case digitValue c of
        None \<Rightarrow> None
      | Some d \<Rightarrow> if d < R then Some d else None)"

fun parseDigits :: "nat \<Rightarrow> jsstring \<Rightarrow> nat option \<Rightarrow> nat option" where
  "parseDigits R [] acc = acc"
| "parseDigits R (c # cs) acc =
     (case radixDigit R c of
        None \<Rightarrow> acc
      | Some d \<Rightarrow> parseDigits R cs (Some (case acc of None \<Rightarrow> d | Some a \<Rightarrow> a * R + d)))"

text \<open>The sign: \<^verbatim>\<open>-\<close> is code unit 45 and \<^verbatim>\<open>+\<close> is 43.\<close>

fun stripSign :: "jsstring \<Rightarrow> int \<times> jsstring" where
  "stripSign [] = (1, [])"
| "stripSign (c # cs) =
     (if c = 45 then (- 1, cs) else if c = 43 then (1, cs) else (1, c # cs))"

text \<open>The prefix: \<^verbatim>\<open>0\<close> is code unit 48, \<^verbatim>\<open>x\<close> is 120 and \<^verbatim>\<open>X\<close> is 88.\<close>

fun stripPrefix :: "jsstring \<Rightarrow> nat \<times> jsstring" where
  "stripPrefix (z # x # cs) =
     (if z = 48 \<and> (x = 120 \<or> x = 88) then (16, cs) else (10, z # x # cs))"
| "stripPrefix cs = (10, cs)"

definition parseIntString :: "jsstring \<Rightarrow> jsnum" where
  "parseIntString s =
     (case stripSign (dropWhile isStrWhiteSpaceChar s) of
        (sign, s2) \<Rightarrow>
          (case stripPrefix s2 of
             (R, s3) \<Rightarrow>
               (case parseDigits R s3 None of
                  None \<Rightarrow> NaN
                | Some n \<Rightarrow> Fin (sign * int n))))"

text \<open>
  The argument is converted to a string first: a 32-bit integer gives its decimal numeral,
  which parses back to the integer; \<^verbatim>\<open>undefined\<close>, \<^verbatim>\<open>null\<close>, a boolean and a function give text
  with no leading digit.
\<close>

fun parseInt :: "jsval \<Rightarrow> jsnum" where
  "parseInt (JStr s) = parseIntString s"
| "parseInt (JNum n) = Fin (sint n)"
| "parseInt v = NaN"

text \<open>
  \<^verbatim>\<open>String.prototype.toLowerCase\<close>, for the one use the source makes of it, the comparison of
  the result with \<^verbatim>\<open>'upper'\<close>: the letters A to Z are mapped to a to z. No character outside
  ASCII has a lower-case form that holds one of the letters of \<^verbatim>\<open>'upper'\<close>, so that the
  comparison is decided as in the program.
\<close>

definition toLowerCaseChar :: "16 word \<Rightarrow> 16 word" where
  "toLowerCaseChar c = (let n = unat c in if 65 \<le> n \<and> n \<le> 90 then c + 32 else c)"

definition toLowerCase :: "jsstring \<Rightarrow> jsstring" where
  "toLowerCase s = map toLowerCaseChar s"

section \<open>The data model\<close>

text \<open>
  An entry of \<^verbatim>\<open>data.objects\<close>: the fields the renderer reads. \<open>obj_x\<close>, \<open>obj_y\<close> and
  \<open>obj_height\<close> are the numbers as the layer data writes them; the program holds of each the
  nearest double, \<open>toDouble\<close>, which is the number itself when it is a double.
\<close>

record TiledObject =
  obj_gid :: int
  obj_x :: rat
  obj_y :: rat
  obj_height :: rat

text \<open>
  The layer data of the Tiled JSON format, as the constructor receives it. \<open>ld_width\<close>,
  \<open>ld_height\<close> and \<open>ld_properties\<close> may be absent (\<^verbatim>\<open>undefined\<close>).
\<close>

record LayerData =
  ld_type :: string
  ld_width :: "int option"
  ld_height :: "int option"
  ld_data :: "int list"
  ld_objects :: "TiledObject list"
  ld_image :: string
  ld_x :: int
  ld_y :: int
  ld_properties :: "(string \<rightharpoonup> jsval) option"
  ld_visible :: bool

text \<open>
  The arguments of one \<^verbatim>\<open>Bitmap.blt\<close> call: the parameter list a tileset computed for a tile
  (of the opaque type \<open>'p\<close>), or the arguments of the image strategy, where the image is named
  by its path: \<^verbatim>\<open>blt(img, sx, sy, sw, sh, dx, dy)\<close>.
\<close>

datatype 'p blt_args = TileParams 'p | ImageArgs string int int int int int int

text \<open>
  A Bitmap of the host engine, by what the renderer uses of it: the size it was created or
  loaded with, and the block transfers drawn on it, in order.
\<close>

record 'p Bitmap =
  bm_width :: int
  bm_height :: int
  bm_blits :: "'p blt_args list"

definition Bitmap_new :: "int \<Rightarrow> int \<Rightarrow> 'p Bitmap" where
  "Bitmap_new w h = \<lparr>bm_width = w, bm_height = h, bm_blits = []\<rparr>"

definition blt :: "'p blt_args \<Rightarrow> 'p Bitmap \<Rightarrow> 'p Bitmap" where
  "blt args dest = dest\<lparr>bm_blits := bm_blits dest @ [args]\<rparr>"

text \<open>
  YED.Tilemap.Tileset is not part of the source file: a tileset is taken as its two
  operations, \<^verbatim>\<open>isInTileset(tileId)\<close> and \<^verbatim>\<open>getBlockTransferParams(tileId, x, y)\<close>.
\<close>

record 'p Tileset =
  isInTileset :: "int \<Rightarrow> bool"
  getBlockTransferParams :: "int \<Rightarrow> jsnum \<Rightarrow> jsnum \<Rightarrow> 'p"

text \<open>
  A TilingSprite of the host engine: the bitmap it repeats, the frame set by
  \<^verbatim>\<open>move(x, y, width, height)\<close> and the scroll origin, which starts at (0, 0).
\<close>

record 'p TilingSprite =
  ts_bitmap :: "'p Bitmap"
  ts_x :: int
  ts_y :: int
  ts_width :: int
  ts_height :: int
  origin_x :: jsnum
  origin_y :: jsnum

definition TilingSprite_new :: "'p Bitmap \<Rightarrow> 'p TilingSprite" where
  "TilingSprite_new b =
     \<lparr>ts_bitmap = b, ts_x = 0, ts_y = 0, ts_width = 0, ts_height = 0,
      origin_x = Fin 0, origin_y = Fin 0\<rparr>"

definition move :: "int \<Rightarrow> int \<Rightarrow> int \<Rightarrow> int \<Rightarrow> 'p TilingSprite \<Rightarrow> 'p TilingSprite" where
  "move x y w h s = s\<lparr>ts_x := x, ts_y := y, ts_width := w, ts_height := h\<rparr>"

text \<open>
  The ambient collaborators: \<^verbatim>\<open>$gameMap.isLoopHorizontal()\<close>, \<^verbatim>\<open>$gameMap.isLoopVertical()\<close>,
  \<^verbatim>\<open>Graphics.width\<close>, \<^verbatim>\<open>Graphics.height\<close> and \<^verbatim>\<open>ImageManager.loadParserParallax(path, 0)\<close>.
\<close>

record 'p env =
  gameMap_isLoopHorizontal :: bool
  gameMap_isLoopVertical :: bool
  Graphics_width :: int
  Graphics_height :: int
  loadParserParallax :: "string \<Rightarrow> 'p Bitmap"

text \<open>
  The Layer object. \<open>f_gridHorz\<close> and \<open>f_gridVert\<close> are the fields \<^verbatim>\<open>_gridHorz\<close> and
  \<^verbatim>\<open>_gridVert\<close>; \<open>layerBitmap\<close> is \<^verbatim>\<open>_layerBitmap\<close> and \<open>tilingSprite\<close> is \<^verbatim>\<open>_tilingSprite\<close>
  (\<open>None\<close> for \<^verbatim>\<open>undefined\<close>/\<^verbatim>\<open>null\<close>); \<open>bitmap\<close>, \<open>children\<close> and \<open>visible\<close> are inherited from
  Sprite. \<open>children\<close> lists the sprites passed to \<^verbatim>\<open>addChild\<close>, as they were then.
\<close>

record 'p Layer =
  data :: LayerData
  tilesets :: "'p Tileset list"
  tileWidth :: int
  tileHeight :: int
  f_gridHorz :: "int option"
  f_gridVert :: "int option"
  layerBitmap :: "'p Bitmap option"
  bitmap :: "'p Bitmap option"
  tilingSprite :: "'p TilingSprite option"
  children :: "'p TilingSprite list"
  visible :: bool

text \<open>
  A call either returns or throws; both leave a Layer behind, since what was mutated before
  a throw stays mutated.
\<close>

datatype 'a completion = Normal 'a | Throws error 'a

fun andThen :: "'a completion \<Rightarrow> ('a \<Rightarrow> 'a completion) \<Rightarrow> 'a completion" where
  "andThen (Normal s) f = f s"
| "andThen (Throws e s) f = Throws e s"

section \<open>Construction and accessors\<close>

text \<open>
  \<^verbatim>\<open>initialize\<close>: assigning \<^verbatim>\<open>data\<close> runs \<^verbatim>\<open>_setupData\<close>, which copies the grid size; a layer
  whose data is not visible is hidden.
\<close>

definition initialize :: "LayerData \<Rightarrow> 'p Tileset list \<Rightarrow> int \<Rightarrow> int \<Rightarrow> 'p Layer" where
  "initialize d tss tw th =
     \<lparr>data = d, tilesets = tss, tileWidth = tw, tileHeight = th,
      f_gridHorz = ld_width d, f_gridVert = ld_height d,
      layerBitmap = None, bitmap = None, tilingSprite = None, children = [],
      visible = (if \<not> ld_visible d then False else True)\<rparr>"

text \<open>The getters \<^verbatim>\<open>gridHorz\<close> and \<^verbatim>\<open>gridVert\<close>: \<^verbatim>\<open>this._gridHorz || 0\<close>.\<close>

definition gridHorz :: "'p Layer \<Rightarrow> int" where
  "gridHorz l = (case f_gridHorz l of None \<Rightarrow> 0 | Some g \<Rightarrow> if g = 0 then 0 else g)"

definition gridVert :: "'p Layer \<Rightarrow> int" where
  "gridVert l = (case f_gridVert l of None \<Rightarrow> 0 | Some g \<Rightarrow> if g = 0 then 0 else g)"

definition tilesData :: "'p Layer \<Rightarrow> int list" where
  "tilesData l = ld_data (data l)"

definition objectsData :: "'p Layer \<Rightarrow> TiledObject list" where
  "objectsData l = ld_objects (data l)"

text \<open>The getter \<^verbatim>\<open>properties\<close>: \<^verbatim>\<open>this.data.properties || {}\<close>.\<close>

definition properties :: "'p Layer \<Rightarrow> (string \<rightharpoonup> jsval)" where
  "properties l = (case ld_properties (data l) of None \<Rightarrow> Map.empty | Some m \<Rightarrow> m)"

text \<open>Reading a property of an object: \<^verbatim>\<open>undefined\<close> when the key is absent.\<close>

definition getProp :: "(string \<rightharpoonup> jsval) \<Rightarrow> string \<Rightarrow> jsval" where
  "getProp m k = (case m k of None \<Rightarrow> JUndefined | Some v \<Rightarrow> v)"

section \<open>Predicates\<close>

definition isTileLayer :: "'p Layer \<Rightarrow> bool" where
  "isTileLayer l = (ld_type (data l) = ''tilelayer'')"

definition isObjectLayer :: "'p Layer \<Rightarrow> bool" where
  "isObjectLayer l = (ld_type (data l) = ''objectgroup'')"

definition isImageLayer :: "'p Layer \<Rightarrow> bool" where
  "isImageLayer l = (ld_type (data l) = ''imagelayer'')"

text \<open>\<^verbatim>\<open>!!this.properties\<close> is true of every object, the empty one too.\<close>

definition isPlaneLayer :: "'p Layer \<Rightarrow> bool" where
  "isPlaneLayer l = (isImageLayer l \<and> True \<and> truthy (getProp (properties l) ''parallax''))"

definition isLoopHorizontal :: "'p env \<Rightarrow> bool" where
  "isLoopHorizontal env = gameMap_isLoopHorizontal env"

definition isLoopVertical :: "'p env \<Rightarrow> bool" where
  "isLoopVertical env = gameMap_isLoopVertical env"

definition isLoop :: "'p env \<Rightarrow> bool" where
  "isLoop env = (isLoopHorizontal env \<or> isLoopVertical env)"

definition isCollisionLayer :: "'p Layer \<Rightarrow> bool" where
  "isCollisionLayer l = (True \<and> truthy (getProp (properties l) ''collision''))"

definition isRegionLayer :: "'p Layer \<Rightarrow> bool" where
  "isRegionLayer l = (True \<and> truthy (getProp (properties l) ''regionId''))"

text \<open>
  \<^verbatim>\<open>isUpperLayer\<close> calls \<^verbatim>\<open>toLowerCase\<close> on a truthy \<^verbatim>\<open>layer\<close> property: a TypeError when that
  property is not a string.
\<close>

definition isUpperLayer :: "'p Layer \<Rightarrow> error + bool" where
  "isUpperLayer l =
     (if truthy (getProp (properties l) ''layer'')
      then (case getProp (properties l) ''layer'' of
              JStr s \<Rightarrow> Inr (toLowerCase s = jsstr ''upper'')
            | _ \<Rightarrow> Inl TypeError)
      else Inr False)"

section \<open>Rendering\<close>

text \<open>\<^verbatim>\<open>_getTileset\<close>: the first tileset of the list that does not deny holding the tile.\<close>

fun getTileset :: "'p Tileset list \<Rightarrow> int \<Rightarrow> 'p Tileset option" where
  "getTileset [] tileId = None"
| "getTileset (tileset # rest) tileId =
     (if isInTileset tileset tileId = False then getTileset rest tileId else Some tileset)"

text \<open>
  \<^verbatim>\<open>_drawTile\<close>: \<^verbatim>\<open>tileset.getBlockTransferParams\<close> is called on the result of \<^verbatim>\<open>_getTileset\<close>
  as it is, so a \<^verbatim>\<open>null\<close> result throws; then \<^verbatim>\<open>dest.blt\<close> is applied to the parameters.
\<close>

definition drawTile :: "int \<Rightarrow> jsnum \<Rightarrow> jsnum \<Rightarrow> 'p Layer \<Rightarrow> 'p Layer completion" where
  "drawTile tileId x y l =
     (case getTileset (tilesets l) tileId of
        None \<Rightarrow> Throws TypeError l
      | Some tileset \<Rightarrow>
          (let params = getBlockTransferParams tileset tileId x y in
           case layerBitmap l of
             None \<Rightarrow> Throws TypeError l
           | Some dest \<Rightarrow> Normal (l\<lparr>layerBitmap := Some (blt (TileParams params) dest)\<rparr>)))"

text \<open>
  \<^verbatim>\<open>_renderLoopLayer\<close> runs at the end of the tile and object passes, when \<^verbatim>\<open>renderLayer\<close> has
  created the backing bitmap. Without a backing bitmap the read of \<^verbatim>\<open>_layerBitmap.width\<close> or
  \<^verbatim>\<open>.height\<close> throws on an axis that does not loop; the host's TilingSprite is taken to need
  its bitmap, so that the model throws then on every map.
\<close>

definition renderLoopLayer :: "'p env \<Rightarrow> 'p Layer \<Rightarrow> 'p Layer completion" where
  "renderLoopLayer env l =
     (case layerBitmap l of
        None \<Rightarrow> Throws TypeError l
      | Some b \<Rightarrow>
          (let tilingWidth = (if isLoopHorizontal env then Graphics_width env else bm_width b);
               tilingHeight = (if isLoopVertical env then Graphics_height env else bm_height b);
               s = move 0 0 tilingWidth tilingHeight (TilingSprite_new b)
           in Normal (l\<lparr>tilingSprite := Some s, children := children l @ [s]\<rparr>)))"

text \<open>
  The loop of \<^verbatim>\<open>_renderTileLayer\<close> from index \<open>i\<close> on, over the entries not yet visited. The
  divisor is the field \<^verbatim>\<open>_gridHorz\<close> itself, not the getter.
\<close>

fun tileLoop :: "nat \<Rightarrow> int list \<Rightarrow> 'p Layer \<Rightarrow> 'p Layer completion" where
  "tileLoop i [] l = Normal l"
| "tileLoop i (tileId # rest) l =
     (let bitmapX = js_mul (js_rem (Fin (int i)) (ToNumber (f_gridHorz l))) (Fin (tileWidth l));
          bitmapY = js_mul (js_floor_div (Fin (int i)) (ToNumber (f_gridHorz l))) (Fin (tileHeight l))
      in if tileId = 0 then tileLoop (Suc i) rest l
         else andThen (drawTile tileId bitmapX bitmapY l) (tileLoop (Suc i) rest))"

text \<open>
  The condition after the loop is \<^verbatim>\<open>this.isLoop\<close>, the method itself and not a call of it: a
  function object, converted to a boolean.
\<close>

definition renderTileLayer :: "'p env \<Rightarrow> 'p Layer \<Rightarrow> 'p Layer completion" where
  "renderTileLayer env l =
     andThen (tileLoop 0 (tilesData l) l)
       (\<lambda>l'. if truthy (JFun ''isLoop'') then renderLoopLayer env l'
             else Normal (l'\<lparr>bitmap := layerBitmap l'\<rparr>))"

fun objectLoop :: "TiledObject list \<Rightarrow> 'p Layer \<Rightarrow> 'p Layer completion" where
  "objectLoop [] l = Normal l"
| "objectLoop (obj # rest) l =
     (let tileId = obj_gid obj;
          bitmapX = Math_round (toDouble (obj_x obj));
          bitmapY = Math_round (js_sub (toDouble (obj_y obj)) (toDouble (obj_height obj)))
      in if tileId = 0 then objectLoop rest l
         else andThen (drawTile tileId bitmapX bitmapY l) (objectLoop rest))"

definition renderObjectLayer :: "'p env \<Rightarrow> 'p Layer \<Rightarrow> 'p Layer completion" where
  "renderObjectLayer env l =
     andThen (objectLoop (objectsData l) l)
       (\<lambda>l'. if truthy (JFun ''isLoop'') then renderLoopLayer env l'
             else Normal (l'\<lparr>bitmap := layerBitmap l'\<rparr>))"

definition renderImageLayer :: "'p env \<Rightarrow> 'p Layer \<Rightarrow> 'p Layer completion" where
  "renderImageLayer env l =
     (case layerBitmap l of
        None \<Rightarrow> Throws TypeError l
      | Some dest \<Rightarrow>
          (let img = loadParserParallax env (ld_image (data l));
               dest' = blt (ImageArgs (ld_image (data l)) 0 0 (bm_width img) (bm_height img)
                              (ld_x (data l)) (ld_y (data l))) dest
           in Normal (l\<lparr>layerBitmap := Some dest', bitmap := Some dest'\<rparr>)))"

definition renderPlaneLayer :: "'p env \<Rightarrow> 'p Layer \<Rightarrow> 'p Layer completion" where
  "renderPlaneLayer env l =
     (let img = loadParserParallax env (ld_image (data l));
          s = move (ld_x (data l)) (ld_y (data l)) (Graphics_width env) (Graphics_height env)
                (TilingSprite_new img)
      in Normal (l\<lparr>tilingSprite := Some s, children := children l @ [s]\<rparr>))"

text \<open>
  \<^verbatim>\<open>renderLayer\<close>: the backing bitmap is created first, for every layer that has none yet;
  then the four tests run one after the other.
\<close>

definition renderLayer :: "'p env \<Rightarrow> 'p Layer \<Rightarrow> 'p Layer completion" where
  "renderLayer env l =
     (let l0 = l\<lparr>layerBitmap :=
                  Some (case layerBitmap l of
                          Some b \<Rightarrow> b
                        | None \<Rightarrow> Bitmap_new (gridHorz l * tileWidth l) (gridVert l * tileHeight l))\<rparr>
      in andThen
           (andThen
              (andThen (if isObjectLayer l0 then renderObjectLayer env l0 else Normal l0)
                 (\<lambda>l1. if isTileLayer l1 then renderTileLayer env l1 else Normal l1))
              (\<lambda>l2. if isImageLayer l2 \<and> \<not> isPlaneLayer l2 then renderImageLayer env l2
                     else Normal l2))
           (\<lambda>l3. if isPlaneLayer l3 then renderPlaneLayer env l3 else Normal l3))"

section \<open>Scrolling\<close>



definition moveLoopLayer :: "jsnum \<Rightarrow> jsnum \<Rightarrow> 'p Layer \<Rightarrow> 'p Layer" where
  "moveLoopLayer x y l =
     (case tilingSprite l of
        None \<Rightarrow> l
      | Some s \<Rightarrow> l\<lparr>tilingSprite := Some (s\<lparr>origin_x := x, origin_y := y\<rparr>)\<rparr>)"

section \<open>What the claims speak of\<close>

text \<open>
  The backing bitmap after the first statement of \<^verbatim>\<open>renderLayer\<close>: the one the layer has, or
  a new one of the size of the grid.
\<close>

definition allocated :: "'p Layer \<Rightarrow> 'p Bitmap" where
  "allocated l =
     (case layerBitmap l of
        Some b \<Rightarrow> b
      | None \<Rightarrow> Bitmap_new (gridHorz l * tileWidth l) (gridVert l * tileHeight l))"

text \<open>
  The destination of the entry at index \<open>i\<close> of a tile layer, in the words of the
  specification: \<open>((i mod gridHorz) * tileWidth, floor(i / gridHorz) * tileHeight)\<close>.
\<close>

definition tileDestination :: "int \<Rightarrow> int \<Rightarrow> int \<Rightarrow> nat \<Rightarrow> jsnum \<times> jsnum" where
  "tileDestination g tw th i = (Fin ((int i mod g) * tw), Fin ((int i div g) * th))"

text \<open>
  The destination of an object, in the words of the specification,
  \<open>(round(x), round(y - height))\<close>, where \<open>x\<close>, \<open>y\<close> and \<open>height\<close> are the doubles the program
  holds, the difference is that of double-precision arithmetic, and \<open>round\<close> is
  \<^verbatim>\<open>Math.round\<close>.
\<close>

definition objectDestination :: "TiledObject \<Rightarrow> jsnum \<times> jsnum" where
  "objectDestination obj =
     (Math_round (toDouble (obj_x obj)),
      Math_round (js_sub (toDouble (obj_y obj)) (toDouble (obj_height obj))))"

text \<open>
  The block transfer that drawing tile \<open>t\<close> at a destination adds to the backing bitmap: the
  parameters of the first tileset that holds \<open>t\<close>; nothing where no tileset holds it.
\<close>

definition drawCall :: "'p Tileset list \<Rightarrow> int \<Rightarrow> jsnum \<times> jsnum \<Rightarrow> 'p blt_args list" where
  "drawCall tss t dest =
     (case getTileset tss t of
        None \<Rightarrow> []
      | Some ts \<Rightarrow> [TileParams (getBlockTransferParams ts t (fst dest) (snd dest))])"

text \<open>
  The draw calls the specification expects of a tile layer, over the entries paired with
  their indices, and of an object layer: in order, none for a zero entry.
\<close>

definition spec_tile_draws ::
  "int \<Rightarrow> int \<Rightarrow> int \<Rightarrow> 'p Tileset list \<Rightarrow> (nat \<times> int) list \<Rightarrow> 'p blt_args list" where
  "spec_tile_draws g tw th tss entries =
     concat (map (\<lambda>(i, t). if t = 0 then [] else drawCall tss t (tileDestination g tw th i)) entries)"

definition spec_object_draws :: "'p Tileset list \<Rightarrow> TiledObject list \<Rightarrow> 'p blt_args list" where
  "spec_object_draws tss objs =
     concat (map (\<lambda>obj. if obj_gid obj = 0 then []
                         else drawCall tss (obj_gid obj) (objectDestination obj)) objs)"




section \<open>Example layers\<close>

text \<open>
  Two tilesets, holding the tiles 1 to 4 and 5 to 8; their parameter lists name the tileset,
  the tile and the destination.
\<close>

type_synonym params = "string \<times> int \<times> jsnum \<times> jsnum"

definition exTilesetA :: "params Tileset" where
  "exTilesetA =
     \<lparr>isInTileset = (\<lambda>t. 1 \<le> t \<and> t \<le> 4),
      getBlockTransferParams = (\<lambda>t x y. (''A'', t, x, y))\<rparr>"

definition exTilesetB :: "params Tileset" where
  "exTilesetB =
     \<lparr>isInTileset = (\<lambda>t. 5 \<le> t \<and> t \<le> 8),
      getBlockTransferParams = (\<lambda>t x y. (''B'', t, x, y))\<rparr>"

text \<open>A map that does not loop, and one that loops horizontally only; a viewport of 816 by 624.\<close>

definition exEnv :: "params env" where
  "exEnv =
     \<lparr>gameMap_isLoopHorizontal = False, gameMap_isLoopVertical = False,
      Graphics_width = 816, Graphics_height = 624,
      loadParserParallax = (\<lambda>path. Bitmap_new 100 50)\<rparr>"

definition exEnvH :: "params env" where
  "exEnvH = exEnv\<lparr>gameMap_isLoopHorizontal := True\<rparr>"

definition exData :: LayerData where
  "exData =
     \<lparr>ld_type = ''tilelayer'', ld_width = Some 2, ld_height = Some 2,
      ld_data = [1, 0, 0, 6], ld_objects = [], ld_image = [], ld_x = 0, ld_y = 0,
      ld_properties = None, ld_visible = True\<rparr>"

definition exTileLayer :: "params Layer" where
  "exTileLayer = initialize exData [exTilesetA, exTilesetB] 48 48"

text \<open>Tile 9 is in neither tileset; tile 1, after it, is.\<close>

definition exBadTileLayer :: "params Layer" where
  "exBadTileLayer = initialize (exData\<lparr>ld_data := [9, 1]\<rparr>) [exTilesetA, exTilesetB] 48 48"

text \<open>A tile layer whose grid width is 0.\<close>

definition exZeroWidthLayer :: "params Layer" where
  "exZeroWidthLayer =
     initialize (exData\<lparr>ld_width := Some 0, ld_data := [1]\<rparr>) [exTilesetA, exTilesetB] 48 48"

definition exObjects :: "TiledObject list" where
  "exObjects =
     [\<lparr>obj_gid = 1, obj_x = 21 / 2, obj_y = 252 / 5, obj_height = 101 / 5\<rparr>,
      \<lparr>obj_gid = 0, obj_x = 5, obj_y = 5, obj_height = 5\<rparr>,
      \<lparr>obj_gid = 6, obj_x = - 5 / 2, obj_y = 10, obj_height = 48\<rparr>]"

definition exObjectLayer :: "params Layer" where
  "exObjectLayer =
     initialize (exData\<lparr>ld_type := ''objectgroup'', ld_data := [], ld_objects := exObjects\<rparr>)
       [exTilesetA, exTilesetB] 48 48"

text \<open>An object with y = 0.7 and height = 0.2, and x = 2.5.\<close>

definition exHalfLayer :: "params Layer" where
  "exHalfLayer =
     initialize
       (exData\<lparr>ld_type := ''objectgroup'', ld_data := [],
          ld_objects := [\<lparr>obj_gid = 1, obj_x = 5 / 2, obj_y = 7 / 10, obj_height = 1 / 5\<rparr>]\<rparr>)
       [exTilesetA, exTilesetB] 48 48"

definition exBadObjectLayer :: "params Layer" where
  "exBadObjectLayer =
     initialize
       (exData\<lparr>ld_type := ''objectgroup'', ld_data := [],
          ld_objects := [\<lparr>obj_gid = 9, obj_x = 0, obj_y = 48, obj_height = 48\<rparr>,
                         \<lparr>obj_gid = 1, obj_x = 48, obj_y = 48, obj_height = 48\<rparr>]\<rparr>)
       [exTilesetA, exTilesetB] 48 48"

definition exUnknownLayer :: "params Layer" where
  "exUnknownLayer = initialize (exData\<lparr>ld_type := ''group''\<rparr>) [exTilesetA, exTilesetB] 48 48"

definition exImageLayer :: "params Layer" where
  "exImageLayer =
     initialize (exData\<lparr>ld_type := ''imagelayer'', ld_data := [], ld_image := ''sky'',
                   ld_x := 3, ld_y := 4\<rparr>) [] 48 48"

text \<open>A plane layer with \<^verbatim>\<open>planeX = 2\<close>, \<^verbatim>\<open>planeY = 0\<close>, and one with \<^verbatim>\<open>planeX = -2\<close>.\<close>

definition exPlaneData :: LayerData where
  "exPlaneData =
     exData\<lparr>ld_type := ''imagelayer'', ld_width := None, ld_height := None, ld_data := [],
       ld_image := ''sky'', ld_x := 3, ld_y := 4,
       ld_properties := Some [''parallax'' \<mapsto> JStr (jsstr ''true''),
                              ''planeX'' \<mapsto> JStr (jsstr ''2''),
                              ''planeY'' \<mapsto> JStr (jsstr ''0'')]\<rparr>"

definition exPlaneLayer :: "params Layer" where
  "exPlaneLayer = initialize exPlaneData [] 48 48"

definition exPlaneNegLayer :: "params Layer" where
  "exPlaneNegLayer =
     initialize
       (exPlaneData\<lparr>ld_properties :=
          Some [''parallax'' \<mapsto> JBool True, ''planeX'' \<mapsto> JStr (jsstr ''-2'')]\<rparr>) [] 48 48"

text \<open>The tiling sprite of the rendered plane layers, and the layers after \<^verbatim>\<open>renderLayer\<close>.\<close>

definition exPlaneSprite :: "params TilingSprite" where
  "exPlaneSprite =
     \<lparr>ts_bitmap = Bitmap_new 100 50, ts_x = 3, ts_y = 4, ts_width = 816, ts_height = 624,
      origin_x = Fin 0, origin_y = Fin 0\<rparr>"

definition exPlaneRendered :: "params Layer" where
  "exPlaneRendered =
     exPlaneLayer\<lparr>layerBitmap := Some (Bitmap_new 0 0), tilingSprite := Some exPlaneSprite,
       children := [exPlaneSprite]\<rparr>"

definition exPlaneNegRendered :: "params Layer" where
  "exPlaneNegRendered =
     exPlaneNegLayer\<lparr>layerBitmap := Some (Bitmap_new 0 0), tilingSprite := Some exPlaneSprite,
       children := [exPlaneSprite]\<rparr>"

text \<open>The rendered plane layer when the image is 0 wide, and when its speed is the number 2.\<close>

definition exPlaneZeroRendered :: "params Layer" where
  "exPlaneZeroRendered =
     exPlaneLayer\<lparr>layerBitmap := Some (Bitmap_new 0 0),
       tilingSprite := Some (exPlaneSprite\<lparr>ts_bitmap := Bitmap_new 0 50\<rparr>),
       children := [exPlaneSprite\<lparr>ts_bitmap := Bitmap_new 0 50\<rparr>]\<rparr>"

lemmas example_defs =
  exTilesetA_def exTilesetB_def exEnv_def exEnvH_def exData_def exTileLayer_def
  exBadTileLayer_def exZeroWidthLayer_def exObjects_def exObjectLayer_def exHalfLayer_def
  exBadObjectLayer_def exUnknownLayer_def
  exImageLayer_def exPlaneData_def exPlaneLayer_def exPlaneNegLayer_def exPlaneSprite_def
  exPlaneRendered_def exPlaneNegRendered_def exPlaneZeroRendered_def initialize_def jsstr_def

lemmas predicate_defs =
  isTileLayer_def isObjectLayer_def isImageLayer_def isPlaneLayer_def isLoopHorizontal_def
  isLoopVertical_def isLoop_def properties_def getProp_def

lemmas render_defs =
  renderLayer_def renderTileLayer_def renderObjectLayer_def renderImageLayer_def
  renderPlaneLayer_def renderLoopLayer_def drawTile_def blt_def move_def TilingSprite_new_def
  Bitmap_new_def gridHorz_def gridVert_def tilesData_def objectsData_def Let_def

lemmas parse_defs =
  parseIntString_def isStrWhiteSpaceChar_def radixDigit_def digitValue_def jsstr_def

section \<open>Auxiliary facts\<close>

text \<open>
  Rounding to a double. \<open>ilog2\<close> is the exponent, the nearest integer is the one within one
  half, and a rational is rounded by giving its exponent and its significand; a double is
  its own rounding, and every rounding is within half a unit in the last place. Then the
  builtins at known values: the doubles nearest to 0.1, 0.7 and 0.2, the difference
  0.7 - 0.2, which is just below one half, a tie, the overflow to Infinity and the smallest
  double; and the integers \<^verbatim>\<open>parseInt\<close> reads.
\<close>

lemma bitlen_powi:
  assumes "0 < x"
  shows "(2::rat) powi (bitlen x - 1) \<le> of_int x \<and> of_int x < (2::rat) powi (bitlen x)"
proof -
  from bitlen_bounds[OF assms] have b: "2 ^ nat (bitlen x - 1) \<le> x" "x < 2 ^ nat (bitlen x)"
    by simp_all
  have pos: "1 \<le> bitlen x" using assms by (auto simp: bitlen_alt_def)
  have "(2::rat) powi (bitlen x - 1) = of_int (2 ^ nat (bitlen x - 1))"
    using pos by (simp add: power_int_def)
  moreover have "(2::rat) powi (bitlen x) = of_int (2 ^ nat (bitlen x))"
    using pos by (simp add: power_int_def)
  ultimately show ?thesis using b
    by (metis of_int_le_iff of_int_less_iff)
qed

lemma ilog2_bounds:
  assumes "q \<noteq> 0"
  shows "2 powi (ilog2 q) \<le> \<bar>q\<bar> \<and> \<bar>q\<bar> < 2 powi (ilog2 q + 1)"
proof (cases "1 \<le> \<bar>q\<bar>")
  case True
  let ?x = "\<lfloor>\<bar>q\<bar>\<rfloor>"
  have x: "0 < ?x" using True by simp
  from bitlen_powi[OF x] have b: "(2::rat) powi (bitlen ?x - 1) \<le> of_int ?x"
    "of_int ?x < (2::rat) powi (bitlen ?x)" by simp_all
  have pos: "1 \<le> bitlen ?x" using x by (auto simp: bitlen_alt_def)
  have up: "(2::rat) powi (bitlen ?x) = of_int (2 ^ nat (bitlen ?x))"
    using pos by (simp add: power_int_def)
  have "of_int ?x \<le> \<bar>q\<bar>" by simp
  with b(1) have lo: "2 powi (bitlen ?x - 1) \<le> \<bar>q\<bar>" by linarith
  have "?x < 2 ^ nat (bitlen ?x)" using b(2) up by (metis of_int_less_iff)
  then have "\<bar>q\<bar> < of_int (2 ^ nat (bitlen ?x))" by (simp add: floor_less_iff)
  then have hi: "\<bar>q\<bar> < 2 powi (bitlen ?x)" using up by simp
  show ?thesis using True lo hi by (simp add: ilog2_def)
next
  case False
  let ?t = "\<lceil>1 / \<bar>q\<bar>\<rceil> - 1"
  have q: "0 < \<bar>q\<bar>" "\<bar>q\<bar> < 1" using assms False by simp_all
  then have inv: "1 < 1 / \<bar>q\<bar>" by simp
  then have "1 < \<lceil>1 / \<bar>q\<bar>\<rceil>" by (simp add: less_ceiling_iff)
  then have t: "0 < ?t" by simp
  let ?j = "bitlen ?t"
  from bitlen_powi[OF t] have b: "(2::rat) powi (?j - 1) \<le> of_int ?t"
    "of_int ?t < (2::rat) powi ?j" by simp_all
  have pos: "1 \<le> ?j" using t by (auto simp: bitlen_alt_def)
  have lo': "(2::rat) powi (?j - 1) = of_int (2 ^ nat (?j - 1))"
    using pos by (simp add: power_int_def)
  have up': "(2::rat) powi ?j = of_int (2 ^ nat ?j)"
    using pos by (simp add: power_int_def)
  have "2 ^ nat (?j - 1) \<le> ?t" using b(1) lo' by (metis of_int_le_iff)
  then have "2 ^ nat (?j - 1) < \<lceil>1 / \<bar>q\<bar>\<rceil>" by simp
  then have "of_int (2 ^ nat (?j - 1)) < 1 / \<bar>q\<bar>" by (simp only: less_ceiling_iff)
  then have A: "2 powi (?j - 1) < 1 / \<bar>q\<bar>" using lo' by simp
  have "?t < 2 ^ nat ?j" using b(2) up' by (metis of_int_less_iff)
  then have "\<lceil>1 / \<bar>q\<bar>\<rceil> \<le> 2 ^ nat ?j" by simp
  then have "1 / \<bar>q\<bar> \<le> of_int (2 ^ nat ?j)" by (simp only: ceiling_le_iff)
  then have B: "1 / \<bar>q\<bar> \<le> 2 powi ?j" using up' by simp
  have p1: "(0::rat) < 2 powi (?j - 1)" and p2: "(0::rat) < 2 powi ?j" by simp_all
  from A q(1) p1 have "\<bar>q\<bar> < 1 / 2 powi (?j - 1)"
    by (simp add: field_simps)
  moreover have "(2::rat) powi (- (?j - 1)) = 1 / 2 powi (?j - 1)"
    by (simp only: power_int_minus inverse_eq_divide)
  moreover have "- ?j + 1 = - (?j - 1)" by simp
  ultimately have hi: "\<bar>q\<bar> < 2 powi (- ?j + 1)" by simp
  from B q(1) p2 have "1 / 2 powi ?j \<le> \<bar>q\<bar>"
    by (simp add: field_simps)
  moreover have "(2::rat) powi (- ?j) = 1 / 2 powi ?j"
    by (simp only: power_int_minus inverse_eq_divide)
  ultimately have lo: "2 powi (- ?j) \<le> \<bar>q\<bar>" by simp
  show ?thesis using False lo hi by (simp add: ilog2_def)
qed

lemma ilog2_eqI:
  assumes "2 powi e \<le> \<bar>q\<bar>" "\<bar>q\<bar> < 2 powi (e + 1)"
  shows "ilog2 q = e"
proof -
  have "(0::rat) < 2 powi e" by simp
  with assms(1) have "0 < \<bar>q\<bar>" by linarith
  then have q: "q \<noteq> 0" by simp
  from ilog2_bounds[OF q] have b: "2 powi (ilog2 q) \<le> \<bar>q\<bar>" "\<bar>q\<bar> < 2 powi (ilog2 q + 1)"
    by simp_all
  have "(2::rat) powi e < 2 powi (ilog2 q + 1)" using assms(1) b(2) by linarith
  then have 1: "e < ilog2 q + 1"
    by (metis linorder_not_less one_le_numeral power_int_increasing)
  have "(2::rat) powi (ilog2 q) < 2 powi (e + 1)" using assms(2) b(1) by linarith
  then have 2: "ilog2 q < e + 1"
    by (metis linorder_not_less one_le_numeral power_int_increasing)
  from 1 2 show ?thesis by simp
qed

lemma exponent_normal:
  assumes "2 powi e \<le> \<bar>q\<bar>" "\<bar>q\<bar> < 2 powi (e + 1)" "- 1022 \<le> e"
  shows "max (ilog2 q) (- 1022) = e"
  using ilog2_eqI[OF assms(1,2)] assms(3) by simp

lemma exponent_subnormal:
  assumes "q \<noteq> 0" "\<bar>q\<bar> < 2 powi (- 1022)"
  shows "max (ilog2 q) (- 1022) = - 1022"
proof -
  from ilog2_bounds[OF assms(1)] have "2 powi (ilog2 q) \<le> \<bar>q\<bar>" by simp
  with assms(2) have "(2::rat) powi (ilog2 q) < 2 powi (- 1022)" by linarith
  then have "ilog2 q < - 1022"
    by (metis linorder_not_less one_le_numeral power_int_increasing)
  then show ?thesis by simp
qed

lemma roundHalfEven_nearest:
  assumes "\<bar>r - of_int m\<bar> < 1 / 2"
  shows "roundHalfEven r = m"
proof (cases "of_int m \<le> r")
  case True
  then have f: "\<lfloor>r\<rfloor> = m" using assms by (intro floor_unique) (auto simp: abs_if split: if_splits)
  show ?thesis using assms True by (simp add: roundHalfEven_def f Let_def)
next
  case False
  then have f: "\<lfloor>r\<rfloor> = m - 1" using assms by (intro floor_unique) (auto simp: abs_if split: if_splits)
  show ?thesis using assms False by (auto simp add: roundHalfEven_def f Let_def abs_if split: if_splits)
qed

lemma roundHalfEven_tie:
  assumes "r = of_int f + 1 / 2"
  shows "roundHalfEven r = (if even f then f else f + 1)"
proof -
  have f: "\<lfloor>r\<rfloor> = f" using assms by (intro floor_unique) simp_all
  show ?thesis by (simp add: roundHalfEven_def f Let_def) (simp add: assms)
qed

lemma toDouble_finite:
  assumes "q \<noteq> 0" "max (ilog2 q) (- 1022) = e" "roundHalfEven (q / 2 powi (e - 52)) = m"
    and "r = of_int m * 2 powi (e - 52)" "\<bar>r\<bar> < 2 powi 1024"
  shows "toDouble q = Dbl r"
  using assms by (simp add: toDouble_def Let_def)

lemma toDouble_overflow:
  assumes "q \<noteq> 0" "max (ilog2 q) (- 1022) = e" "roundHalfEven (q / 2 powi (e - 52)) = m"
    and "2 powi 1024 \<le> \<bar>of_int m * (2::rat) powi (e - 52)\<bar>"
  shows "toDouble q = (if 0 < q then DPosInf else DNegInf)"
  using assms by (simp add: toDouble_def Let_def)

text \<open>A double is its own nearest double.\<close>

lemma toDouble_exact:
  assumes "2 powi e \<le> \<bar>q\<bar>" "\<bar>q\<bar> < 2 powi (e + 1)" "- 1022 \<le> e" "e \<le> 1023"
    and "q = of_int m * 2 powi (e - 52)"
  shows "toDouble q = Dbl q"
proof -
  have "(0::rat) < 2 powi e" by simp
  with assms(1) have "0 < \<bar>q\<bar>" by linarith
  then have q: "q \<noteq> 0" by simp
  have u: "(2::rat) powi (e - 52) \<noteq> 0" by simp
  have d: "q / 2 powi (e - 52) = of_int m" using assms(5) u by simp
  have m: "roundHalfEven (q / 2 powi (e - 52)) = m"
    unfolding d by (rule roundHalfEven_nearest) simp
  have "(2::rat) powi (e + 1) \<le> 2 powi 1024"
    using assms(4) by (intro power_int_increasing) simp_all
  then have "\<bar>q\<bar> < 2 powi 1024" using assms(2) by linarith
  from toDouble_finite[OF q exponent_normal[OF assms(1-3)] m assms(5) this] show ?thesis .
qed


text \<open>The rounding is within half a unit in the last place.\<close>

lemma roundHalfEven_bound: "\<bar>r - of_int (roundHalfEven r)\<bar> \<le> 1 / 2"
proof -
  let ?f = "\<lfloor>r\<rfloor>"
  let ?d = "r - of_int ?f"
  have d: "0 \<le> ?d" "?d < 1" by linarith+
  consider "?d < 1 / 2" | "1 / 2 < ?d" | "?d = 1 / 2" by linarith
  then show ?thesis
  proof cases
    case 1
    then have "roundHalfEven r = ?f" by (simp add: roundHalfEven_def Let_def)
    then show ?thesis using d 1 by simp
  next
    case 2
    then have "roundHalfEven r = ?f + 1" by (simp add: roundHalfEven_def Let_def)
    then show ?thesis using d 2 by simp
  next
    case 3
    then have "roundHalfEven r = ?f \<or> roundHalfEven r = ?f + 1"
      by (simp add: roundHalfEven_def Let_def)
    then show ?thesis using 3 by auto
  qed
qed

lemma toDouble_nearest:
  assumes "toDouble q = Dbl r" "q \<noteq> 0"
  shows "\<bar>r - q\<bar> \<le> 2 powi (max (ilog2 q) (- 1022) - 53)"
proof -
  let ?e = "max (ilog2 q) (- 1022)"
  let ?u = "(2::rat) powi (?e - 52)"
  let ?m = "roundHalfEven (q / ?u)"
  have u: "0 < ?u" by simp
  have r: "r = of_int ?m * ?u"
    using assms by (simp add: toDouble_def Let_def split: if_splits)
  have "r - q = (of_int ?m - q / ?u) * ?u"
    using u by (simp add: r field_simps)
  then have "\<bar>r - q\<bar> = \<bar>q / ?u - of_int ?m\<bar> * ?u"
    using u by (simp add: abs_mult abs_minus_commute)
  also have "\<dots> \<le> (1 / 2) * ?u"
    using roundHalfEven_bound[of "q / ?u"] u by (intro mult_right_mono) simp_all
  also have "(1 / 2) * ?u = 2 powi (?e - 53)"
  proof -
    have "(2::rat) powi (?e - 52) = 2 powi (?e - 53) * 2 powi 1"
      by (subst power_int_add[symmetric]) simp_all
    then show ?thesis by simp
  qed
  finally show ?thesis .
qed

lemma toDouble_tenth: "toDouble (1 / 10) = Dbl (3602879701896397 / 2 ^ 55)"
  by (rule toDouble_finite[where e="- 4" and m=7205759403792794])
    (simp_all add: exponent_normal roundHalfEven_nearest)

lemma toDouble_seven_tenths: "toDouble (7 / 10) = Dbl (3152519739159347 / 2 ^ 52)"
  by (rule toDouble_finite[where e="- 1" and m=6305039478318694])
    (simp_all add: exponent_normal roundHalfEven_nearest)

lemma toDouble_fifth: "toDouble (1 / 5) = Dbl (3602879701896397 / 2 ^ 54)"
  by (rule toDouble_finite[where e="- 3" and m=7205759403792794])
    (simp_all add: exponent_normal roundHalfEven_nearest)

lemma seven_tenths_minus_fifth:
  "js_sub (toDouble (7 / 10)) (toDouble (1 / 5)) = Dbl (9007199254740991 / 2 ^ 54)"
  unfolding toDouble_seven_tenths toDouble_fifth js_sub.simps
  by (rule toDouble_finite[where e="- 2" and m=9007199254740991])
    (simp_all add: exponent_normal roundHalfEven_nearest)

lemma toDouble_tie_to_even: "toDouble (2 ^ 53 + 1) = Dbl (2 ^ 53)"
  by (rule toDouble_finite[where e=53 and m=4503599627370496])
    (simp_all add: exponent_normal roundHalfEven_tie[where f=4503599627370496])

lemma toDouble_overflows: "toDouble (2 ^ 1024 - 2 ^ 970) = DPosInf"
  using toDouble_overflow[where q="2 ^ 1024 - 2 ^ 970" and e=1023 and m="2 ^ 53"]
  by (simp add: exponent_normal roundHalfEven_tie[where f="2 ^ 53 - 1"])

lemma toDouble_underflows: "toDouble (1 / 2 ^ 1075) = Dbl 0"
  by (rule toDouble_finite[where e="- 1022" and m=0])
    (simp_all add: exponent_subnormal roundHalfEven_tie[where f=0])

lemma toDouble_smallest: "toDouble (3 / 2 ^ 1076) = Dbl (1 / 2 ^ 1074)"
  by (rule toDouble_finite[where e="- 1022" and m=1])
    (simp_all add: exponent_subnormal roundHalfEven_nearest)

text \<open>The roundings the example layers need.\<close>

lemma round_example_x: "Math_round (toDouble (21 / 2)) = Fin 11"
proof -
  have "toDouble (21 / 2) = Dbl (21 / 2)"
    by (rule toDouble_exact[where e=3 and m=5910974510923776]) simp_all
  then show ?thesis by (simp add: floor_unique)
qed

lemma round_example_y:
  "Math_round (js_sub (toDouble (252 / 5)) (toDouble (101 / 5))) = Fin 30"
proof -
  have a: "toDouble (252 / 5) = Dbl (7093169413108531 / 2 ^ 47)"
    by (rule toDouble_finite[where e=5 and m=7093169413108531])
      (simp_all add: exponent_normal roundHalfEven_nearest)
  have b: "toDouble (101 / 5) = Dbl (5685794529555251 / 2 ^ 48)"
    by (rule toDouble_finite[where e=4 and m=5685794529555251])
      (simp_all add: exponent_normal roundHalfEven_nearest)
  have "js_sub (toDouble (252 / 5)) (toDouble (101 / 5)) = Dbl (8500544296661811 / 2 ^ 48)"
    unfolding a b js_sub.simps
    by (rule toDouble_finite[where e=4 and m=8500544296661811])
      (simp_all add: exponent_normal roundHalfEven_nearest)
  then show ?thesis by (simp add: floor_unique)
qed

lemma round_example_negative:
  "Math_round (toDouble (- (5 / 2))) = Fin (- 2)"
  "Math_round (js_sub (toDouble 10) (toDouble 48)) = Fin (- 38)"
proof -
  have "toDouble (- (5 / 2)) = Dbl (- (5 / 2))"
    by (rule toDouble_exact[where e=1 and m="- 5629499534213120"]) simp_all
  then show "Math_round (toDouble (- (5 / 2))) = Fin (- 2)"
    by (simp add: floor_unique)
  have a: "toDouble 10 = Dbl 10"
    by (rule toDouble_exact[where e=3 and m=5629499534213120]) simp_all
  have b: "toDouble 48 = Dbl 48"
    by (rule toDouble_exact[where e=5 and m=6755399441055744]) simp_all
  have "toDouble (- 38) = Dbl (- 38)"
    by (rule toDouble_exact[where e=5 and m="- 5348024557502464"]) simp_all
  then show "Math_round (js_sub (toDouble 10) (toDouble 48)) = Fin (- 38)"
    by (simp add: a b floor_unique)
qed

lemma round_example_half:
  "Math_round (toDouble (5 / 2)) = Fin 3"
  "Math_round (js_sub (toDouble (7 / 10)) (toDouble (1 / 5))) = Fin 0"
proof -
  have "toDouble (5 / 2) = Dbl (5 / 2)"
    by (rule toDouble_exact[where e=1 and m=5629499534213120]) simp_all
  then show "Math_round (toDouble (5 / 2)) = Fin 3"
    by (simp add: floor_unique)
  show "Math_round (js_sub (toDouble (7 / 10)) (toDouble (1 / 5))) = Fin 0"
    unfolding seven_tenths_minus_fifth by (simp add: floor_unique)
qed

lemma parseInt_examples:
  "parseInt (JStr (jsstr ''2'')) = Fin 2"
  "parseInt (JStr (jsstr ''  -12px'')) = Fin (- 12)"
  "parseInt (JStr (jsstr ''0x1f'')) = Fin 31"
  "parseInt (JStr (jsstr ''abc'')) = NaN"
  "parseInt (JStr (160 # jsstr ''5'')) = Fin 5"
  "parseInt (JNum 2) = Fin 2"
  "parseInt (JNum (- 3)) = Fin (- 3)"
  "parseInt (JBool True) = NaN"
  "parseInt JUndefined = NaN"
  by (simp_all add: parse_defs)


lemma Math_round_Dbl: "Math_round (Dbl q) = Fin (round q)"
  by (simp add: round_def)

lemma rem_nonneg: "0 \<le> k \<Longrightarrow> 0 < m \<Longrightarrow> sgn (k::int) * (\<bar>k\<bar> mod \<bar>m\<bar>) = k mod m"
  by (cases "k = 0") simp_all

lemma js_rem_index:
  assumes "0 < g"
  shows "js_rem (Fin (int i)) (Fin g) = Fin (int i mod g)"
proof -
  have h: "sgn (int i) * (\<bar>int i\<bar> mod \<bar>g\<bar>) = int i mod g"
    using assms by (intro rem_nonneg) simp_all
  have "g \<noteq> 0" using assms by simp
  then show ?thesis by (simp only: js_rem.simps h if_False)
qed

lemma js_floor_div_index:
  assumes "0 < g"
  shows "js_floor_div (Fin (int i)) (Fin g) = Fin (int i div g)"
  using assms by simp

lemma drawTile_resolved:
  assumes "layerBitmap l = Some b" "getTileset (tilesets l) t \<noteq> None"
  shows "drawTile t x y l =
    Normal (l\<lparr>layerBitmap := Some (b\<lparr>bm_blits := bm_blits b @ drawCall (tilesets l) t (x, y)\<rparr>)\<rparr>)"
  using assms by (auto simp add: drawTile_def drawCall_def blt_def)

lemma tileLoop_draws:
  assumes "f_gridHorz l = Some g" "0 < g" "layerBitmap l = Some b"
    and "\<forall>t \<in> set ds. t \<noteq> 0 \<longrightarrow> getTileset (tilesets l) t \<noteq> None"
  shows "tileLoop i ds l =
    Normal (l\<lparr>layerBitmap := Some (b\<lparr>bm_blits := bm_blits b @
       spec_tile_draws g (tileWidth l) (tileHeight l) (tilesets l) (enumerate i ds)\<rparr>)\<rparr>)"
  using assms
proof (induction ds arbitrary: i l b)
  case Nil
  then show ?case by (simp add: spec_tile_draws_def)
next
  case (Cons t ds)
  show ?case
  proof (cases "t = 0")
    case True
    have step: "tileLoop i (t # ds) l = tileLoop (Suc i) ds l"
      using True by (simp add: Let_def)
    have "tileLoop (Suc i) ds l =
      Normal (l\<lparr>layerBitmap := Some (b\<lparr>bm_blits := bm_blits b @
         spec_tile_draws g (tileWidth l) (tileHeight l) (tilesets l) (enumerate (Suc i) ds)\<rparr>)\<rparr>)"
      using Cons.prems by (intro Cons.IH) simp_all
    then show ?thesis unfolding step using True by (simp add: spec_tile_draws_def)
  next
    case False
    let ?dest = "tileDestination g (tileWidth l) (tileHeight l) i"
    let ?b1 = "b\<lparr>bm_blits := bm_blits b @ drawCall (tilesets l) t ?dest\<rparr>"
    let ?l1 = "l\<lparr>layerBitmap := Some ?b1\<rparr>"
    have res: "getTileset (tilesets l) t \<noteq> None" using Cons.prems(4) False by simp
    have draw: "drawTile t (fst ?dest) (snd ?dest) l = Normal ?l1"
      using drawTile_resolved[OF Cons.prems(3) res, of "fst ?dest" "snd ?dest"] by simp
    have coords: "js_mul (js_rem (Fin (int i)) (ToNumber (f_gridHorz l))) (Fin (tileWidth l)) = fst ?dest"
      "js_mul (js_floor_div (Fin (int i)) (ToNumber (f_gridHorz l))) (Fin (tileHeight l)) = snd ?dest"
      using Cons.prems(2)
      by (simp_all only: Cons.prems(1) ToNumber.simps js_rem_index js_floor_div_index js_mul.simps
          tileDestination_def fst_conv snd_conv)
    have step: "tileLoop i (t # ds) l = tileLoop (Suc i) ds ?l1"
      using False by (simp only: tileLoop.simps Let_def coords draw andThen.simps if_False)
    have "tileLoop (Suc i) ds ?l1 =
      Normal (?l1\<lparr>layerBitmap := Some (?b1\<lparr>bm_blits := bm_blits ?b1 @
         spec_tile_draws g (tileWidth ?l1) (tileHeight ?l1) (tilesets ?l1) (enumerate (Suc i) ds)\<rparr>)\<rparr>)"
      using Cons.prems by (intro Cons.IH) simp_all
    then show ?thesis unfolding step using False by (simp add: spec_tile_draws_def)
  qed
qed

lemma objectLoop_draws:
  assumes "layerBitmap l = Some b"
    and "\<forall>obj \<in> set objs. obj_gid obj \<noteq> 0 \<longrightarrow> getTileset (tilesets l) (obj_gid obj) \<noteq> None"
  shows "objectLoop objs l =
    Normal (l\<lparr>layerBitmap := Some (b\<lparr>bm_blits := bm_blits b @ spec_object_draws (tilesets l) objs\<rparr>)\<rparr>)"
  using assms
proof (induction objs arbitrary: l b)
  case Nil
  then show ?case by (simp add: spec_object_draws_def)
next
  case (Cons obj objs)
  show ?case
  proof (cases "obj_gid obj = 0")
    case True
    have step: "objectLoop (obj # objs) l = objectLoop objs l"
      using True by (simp add: Let_def)
    have "objectLoop objs l =
      Normal (l\<lparr>layerBitmap := Some (b\<lparr>bm_blits := bm_blits b @ spec_object_draws (tilesets l) objs\<rparr>)\<rparr>)"
      using Cons.prems by (intro Cons.IH) simp_all
    then show ?thesis unfolding step using True by (simp add: spec_object_draws_def)
  next
    case False
    let ?dest = "objectDestination obj"
    let ?b1 = "b\<lparr>bm_blits := bm_blits b @ drawCall (tilesets l) (obj_gid obj) ?dest\<rparr>"
    let ?l1 = "l\<lparr>layerBitmap := Some ?b1\<rparr>"
    have res: "getTileset (tilesets l) (obj_gid obj) \<noteq> None" using Cons.prems(2) False by simp
    have draw: "drawTile (obj_gid obj) (fst ?dest) (snd ?dest) l = Normal ?l1"
      using drawTile_resolved[OF Cons.prems(1) res, of "fst ?dest" "snd ?dest"] by simp
    have coords: "Math_round (toDouble (obj_x obj)) = fst ?dest"
      "Math_round (js_sub (toDouble (obj_y obj)) (toDouble (obj_height obj))) = snd ?dest"
      by (simp_all add: objectDestination_def)
    have step: "objectLoop (obj # objs) l = objectLoop objs ?l1"
      using False by (simp only: objectLoop.simps Let_def coords draw andThen.simps if_False)
    have "objectLoop objs ?l1 =
      Normal (?l1\<lparr>layerBitmap := Some (?b1\<lparr>bm_blits := bm_blits ?b1 @
         spec_object_draws (tilesets ?l1) objs\<rparr>)\<rparr>)"
      using Cons.prems by (intro Cons.IH) simp_all
    then show ?thesis unfolding step using False by (simp add: spec_object_draws_def)
  qed
qed

lemma renderLoopLayer_Some:
  assumes "layerBitmap l = Some b"
  shows "\<exists>l'. renderLoopLayer env l = Normal l' \<and> layerBitmap l' = Some b \<and> data l' = data l"
  using assms by (simp add: renderLoopLayer_def Let_def)

lemma getTileset_find: "getTileset tss t = List.find (\<lambda>ts. isInTileset ts t) tss"
  by (induction tss) auto

lemma getTileset_None: "(getTileset tss t = None) = (\<forall>ts \<in> set tss. \<not> isInTileset ts t)"
  by (induction tss) auto

lemma moveLoopLayer_idem: "moveLoopLayer x y (moveLoopLayer x y l) = moveLoopLayer x y l"
  by (cases "tilingSprite l") (simp_all add: moveLoopLayer_def)

lemma moveLoopLayer_funpow: "0 < n \<Longrightarrow> (moveLoopLayer x y ^^ n) l = moveLoopLayer x y l"
proof (induction n)
  case 0 then show ?case by simp
next
  case (Suc n)
  show ?case
  proof (cases n)
    case 0 then show ?thesis by simp
  next
    case (Suc m)
    with Suc.IH have "(moveLoopLayer x y ^^ n) l = moveLoopLayer x y l" by simp
    then show ?thesis by (simp add: moveLoopLayer_idem)
  qed
qed


lemma properties_tilingSprite_update [simp]: "properties (l\<lparr>tilingSprite := t\<rparr>) = properties l"
  by (simp add: properties_def)








lemma drawTile_cases:
  "(\<exists>l'. drawTile t x y l = Normal l' \<and> tilesets l' = tilesets l)
   \<or> drawTile t x y l = Throws TypeError l"
  by (simp add: drawTile_def Let_def split: option.splits)

lemma drawTile_unresolved:
  "getTileset (tilesets l) t = None \<Longrightarrow> drawTile t x y l = Throws TypeError l"
  by (simp add: drawTile_def)

lemma tileLoop_throws:
  assumes "\<exists>t \<in> set ds. t \<noteq> 0 \<and> getTileset (tilesets l) t = None"
  shows "\<exists>l'. tileLoop i ds l = Throws TypeError l'"
  using assms
proof (induction ds arbitrary: i l)
  case Nil
  then show ?case by simp
next
  case (Cons t ds)
  let ?x = "js_mul (js_rem (Fin (int i)) (ToNumber (f_gridHorz l))) (Fin (tileWidth l))"
  let ?y = "js_mul (js_floor_div (Fin (int i)) (ToNumber (f_gridHorz l))) (Fin (tileHeight l))"
  show ?case
  proof (cases "t = 0")
    case True
    then have "\<exists>u \<in> set ds. u \<noteq> 0 \<and> getTileset (tilesets l) u = None"
      using Cons.prems by auto
    from Cons.IH[OF this, of "Suc i"] True show ?thesis by (simp add: Let_def)
  next
    case False
    have step: "tileLoop i (t # ds) l = andThen (drawTile t ?x ?y l) (tileLoop (Suc i) ds)"
      using False by (simp add: Let_def)
    show ?thesis
    proof (cases "getTileset (tilesets l) t = None")
      case True
      then show ?thesis unfolding step by (simp add: drawTile_unresolved)
    next
      case resolved: False
      then have rest: "\<exists>u \<in> set ds. u \<noteq> 0 \<and> getTileset (tilesets l) u = None"
        using Cons.prems by auto
      from drawTile_cases[of t ?x ?y l] show ?thesis
      proof
        assume "\<exists>l'. drawTile t ?x ?y l = Normal l' \<and> tilesets l' = tilesets l"
        then obtain l1 where l1: "drawTile t ?x ?y l = Normal l1" "tilesets l1 = tilesets l"
          by blast
        from rest l1(2) have "\<exists>u \<in> set ds. u \<noteq> 0 \<and> getTileset (tilesets l1) u = None"
          by simp
        from Cons.IH[OF this, of "Suc i"] show ?thesis unfolding step by (simp add: l1(1))
      next
        assume "drawTile t ?x ?y l = Throws TypeError l"
        then show ?thesis unfolding step by simp
      qed
    qed
  qed
qed

lemma objectLoop_throws:
  assumes "\<exists>obj \<in> set objs. obj_gid obj \<noteq> 0 \<and> getTileset (tilesets l) (obj_gid obj) = None"
  shows "\<exists>l'. objectLoop objs l = Throws TypeError l'"
  using assms
proof (induction objs arbitrary: l)
  case Nil
  then show ?case by simp
next
  case (Cons obj objs)
  let ?t = "obj_gid obj"
  let ?x = "Math_round (toDouble (obj_x obj))"
  let ?y = "Math_round (js_sub (toDouble (obj_y obj)) (toDouble (obj_height obj)))"
  show ?case
  proof (cases "?t = 0")
    case True
    then have "\<exists>u \<in> set objs. obj_gid u \<noteq> 0 \<and> getTileset (tilesets l) (obj_gid u) = None"
      using Cons.prems by auto
    from Cons.IH[OF this] True show ?thesis by (simp add: Let_def)
  next
    case False
    have step: "objectLoop (obj # objs) l = andThen (drawTile ?t ?x ?y l) (objectLoop objs)"
      using False by (simp add: Let_def)
    show ?thesis
    proof (cases "getTileset (tilesets l) ?t = None")
      case True
      then show ?thesis unfolding step by (simp add: drawTile_unresolved)
    next
      case resolved: False
      then have rest: "\<exists>u \<in> set objs. obj_gid u \<noteq> 0 \<and> getTileset (tilesets l) (obj_gid u) = None"
        using Cons.prems by auto
      from drawTile_cases[of ?t ?x ?y l] show ?thesis
      proof
        assume "\<exists>l'. drawTile ?t ?x ?y l = Normal l' \<and> tilesets l' = tilesets l"
        then obtain l1 where l1: "drawTile ?t ?x ?y l = Normal l1" "tilesets l1 = tilesets l"
          by blast
        from rest l1(2) have "\<exists>u \<in> set objs. obj_gid u \<noteq> 0 \<and> getTileset (tilesets l1) (obj_gid u) = None"
          by simp
        from Cons.IH[OF this] show ?thesis unfolding step by (simp add: l1(1))
      next
        assume "drawTile ?t ?x ?y l = Throws TypeError l"
        then show ?thesis unfolding step by simp
      qed
    qed
  qed
qed

lemma renderLayer_throws:
  assumes "isTileLayer l \<and> (\<exists>t \<in> set (tilesData l). t \<noteq> 0 \<and> getTileset (tilesets l) t = None)
     \<or> isObjectLayer l \<and> (\<exists>obj \<in> set (objectsData l). obj_gid obj \<noteq> 0 \<and> getTileset (tilesets l) (obj_gid obj) = None)"
  shows "\<exists>l'. renderLayer env l = Throws TypeError l'"
  using assms
proof
  assume a: "isTileLayer l \<and> (\<exists>t \<in> set (tilesData l). t \<noteq> 0 \<and> getTileset (tilesets l) t = None)"
  let ?l0 = "l\<lparr>layerBitmap := Some (allocated l)\<rparr>"
  from a have "\<exists>t \<in> set (tilesData ?l0). t \<noteq> 0 \<and> getTileset (tilesets ?l0) t = None"
    by (simp add: tilesData_def)
  from tileLoop_throws[OF this, of 0] obtain l' where "tileLoop 0 (tilesData ?l0) ?l0 = Throws TypeError l'"
    by blast
  then have "renderTileLayer env ?l0 = Throws TypeError l'"
    by (simp add: renderTileLayer_def)
  moreover have "ld_type (data l) = ''tilelayer''" using a by (simp add: isTileLayer_def)
  ultimately have "renderLayer env l = Throws TypeError l'"
    by (simp add: renderLayer_def allocated_def isObjectLayer_def isTileLayer_def)
  then show ?thesis by blast
next
  assume a: "isObjectLayer l \<and> (\<exists>obj \<in> set (objectsData l). obj_gid obj \<noteq> 0 \<and> getTileset (tilesets l) (obj_gid obj) = None)"
  let ?l0 = "l\<lparr>layerBitmap := Some (allocated l)\<rparr>"
  from a have "\<exists>obj \<in> set (objectsData ?l0). obj_gid obj \<noteq> 0 \<and> getTileset (tilesets ?l0) (obj_gid obj) = None"
    by (simp add: objectsData_def)
  from objectLoop_throws[OF this] obtain l' where "objectLoop (objectsData ?l0) ?l0 = Throws TypeError l'"
    by blast
  then have "renderObjectLayer env ?l0 = Throws TypeError l'"
    by (simp add: renderObjectLayer_def)
  moreover have "ld_type (data l) = ''objectgroup''" using a by (simp add: isObjectLayer_def)
  ultimately have "renderLayer env l = Throws TypeError l'"
    by (simp add: renderLayer_def allocated_def isObjectLayer_def isTileLayer_def)
  then show ?thesis by blast
qed

section \<open>The claims\<close>

subsection \<open>C1: loop wrapping after the tile and object passes\<close>

text \<open>
  Claim C1: for every tile layer and every object layer, after the rendering pass
  \<^verbatim>\<open>renderLayer\<close> wraps the composited bitmap in a tiling surface if and only if the layer
  loops; when the layer does not loop the bitmap becomes the node's visible content and no
  tiling surface is created.

  The source does not do this. The test after each pass reads \<^verbatim>\<open>this.isLoop\<close>, the method
  object, which is always true, so the branch that assigns the bitmap is never taken. On a
  map that loops on neither axis the tile layer and the object layer of the examples both
  end with a tiling sprite as only child and with no bitmap assigned to the node.
\<close>

theorem renderLayer_wraps_when_not_looping:
  "isLoop exEnv = False
   \<and> (case renderLayer exEnv exTileLayer of
        Normal l' \<Rightarrow>
          map_option ts_bitmap (tilingSprite l') = layerBitmap l' \<and> bitmap l' = None
          \<and> length (children l') = 1
      | Throws e l' \<Rightarrow> False)
   \<and> (case renderLayer exEnv exObjectLayer of
        Normal l' \<Rightarrow>
          map_option ts_bitmap (tilingSprite l') = layerBitmap l' \<and> bitmap l' = None
          \<and> length (children l') = 1
      | Throws e l' \<Rightarrow> False)"
  by (simp add: example_defs predicate_defs render_defs)

subsection \<open>C2: the tile pass\<close>

text \<open>
  Claim C2, as amended: for every tile layer whose grid width is positive and whose non-zero
  entries are each held by a supplied tileset, \<^verbatim>\<open>renderLayer\<close> returns, and the block
  transfers it adds to the backing bitmap are, in the order of the indices of
  \<^verbatim>\<open>data.data\<close>, none for an entry equal to 0 and, for a non-zero entry at index \<open>i\<close>, the
  one its tileset gives for the destination
  \<open>((i mod gridHorz) * tileWidth, floor(i / gridHorz) * tileHeight)\<close>.
\<close>

theorem renderLayer_tile_draws:
  assumes "isTileLayer l" "f_gridHorz l = Some g" "0 < g"
    and "\<forall>t \<in> set (tilesData l). t \<noteq> 0 \<longrightarrow> getTileset (tilesets l) t \<noteq> None"
  shows "\<exists>l'. renderLayer env l = Normal l' \<and>
     map_option bm_blits (layerBitmap l') =
       Some (bm_blits (allocated l) @
             spec_tile_draws g (tileWidth l) (tileHeight l) (tilesets l) (enumerate 0 (tilesData l)))"
proof -
  let ?l0 = "l\<lparr>layerBitmap := Some (allocated l)\<rparr>"
  let ?b1 = "(allocated l)\<lparr>bm_blits := bm_blits (allocated l) @
             spec_tile_draws g (tileWidth l) (tileHeight l) (tilesets l) (enumerate 0 (tilesData l))\<rparr>"
  let ?l1 = "l\<lparr>layerBitmap := Some ?b1\<rparr>"
  have loop: "tileLoop 0 (tilesData ?l0) ?l0 = Normal ?l1"
    using tileLoop_draws[of ?l0 g "allocated l" "tilesData l" 0] assms
    by (simp add: tilesData_def)
  obtain l2 where l2: "renderLoopLayer env ?l1 = Normal l2" "layerBitmap l2 = Some ?b1" "data l2 = data l"
    using renderLoopLayer_Some[of ?l1 ?b1 env] by auto
  have tile: "renderTileLayer env ?l0 = Normal l2"
    by (simp add: renderTileLayer_def loop l2)
  have ty: "ld_type (data l) = ''tilelayer''" using assms(1) by (simp add: isTileLayer_def)
  have "renderLayer env l = Normal l2"
    using tile l2(3) ty
    by (simp add: renderLayer_def allocated_def isObjectLayer_def isTileLayer_def isImageLayer_def
        isPlaneLayer_def)
  then show ?thesis using l2(2) by simp
qed

text \<open>
  The example tile layer: a grid two tiles wide, tiles of 48 by 48, entries 1, 0, 0, 6. Tile
  1 is drawn at (0, 0) from the first tileset and tile 6 at (48, 48) from the second.
\<close>

theorem renderLayer_tile_draws_witness:
  "\<exists>l'. renderLayer exEnv exTileLayer = Normal l' \<and>
     map_option bm_blits (layerBitmap l') =
       Some [TileParams (''A'', 1, Fin 0, Fin 0), TileParams (''B'', 6, Fin 48, Fin 48)]"
proof -
  have h1: "isTileLayer exTileLayer"
    by (simp add: example_defs predicate_defs)
  have h2: "f_gridHorz exTileLayer = Some 2"
    by (simp add: example_defs)
  have h3: "\<forall>t \<in> set (tilesData exTileLayer). t \<noteq> 0 \<longrightarrow> getTileset (tilesets exTileLayer) t \<noteq> None"
    by (simp add: example_defs tilesData_def)
  have "(0::int) < 2" by simp
  from renderLayer_tile_draws[OF h1 h2 this h3, of exEnv] show ?thesis
    by (simp add: example_defs allocated_def Bitmap_new_def tilesData_def spec_tile_draws_def
        drawCall_def tileDestination_def enumerate_eq_zip upt_rec)
qed

text \<open>
  The claim as first stated is about every tile layer. In the layer with the entries 9, 1
  no tileset holds tile 9: the call for index 0 throws, the pass ends there, and the entry
  at index 1, which is not zero and is held by a tileset, is never reached and never drawn.
  In the layer whose grid width is 0 the destination computed for the entry at index 0 is
  (NaN, NaN), no pixel coordinate.
\<close>

theorem renderLayer_tile_draws_counterexample:
  "isTileLayer exBadTileLayer \<and> f_gridHorz exBadTileLayer = Some 2
   \<and> tilesData exBadTileLayer = [9, 1]
   \<and> getTileset (tilesets exBadTileLayer) 1 = Some exTilesetA
   \<and> renderLayer exEnv exBadTileLayer =
       Throws TypeError (exBadTileLayer\<lparr>layerBitmap := Some (Bitmap_new 96 96)\<rparr>)
   \<and> bm_blits (Bitmap_new 96 96 :: params Bitmap) = []
   \<and> isTileLayer exZeroWidthLayer \<and> f_gridHorz exZeroWidthLayer = Some 0
   \<and> tilesData exZeroWidthLayer = [1]
   \<and> (case renderLayer exEnv exZeroWidthLayer of
        Normal l' \<Rightarrow> map_option bm_blits (layerBitmap l') = Some [TileParams (''A'', 1, NaN, NaN)]
      | Throws e l' \<Rightarrow> False)"
  by (simp add: example_defs predicate_defs render_defs)

subsection \<open>C3: the object pass\<close>

text \<open>
  Claim C3, as amended: for every object layer whose entries with a non-zero gid are each
  held by a supplied tileset, \<^verbatim>\<open>renderLayer\<close> returns, and the block transfers it adds to
  the backing bitmap are, in the order of \<^verbatim>\<open>data.objects\<close>, none for an entry whose gid is 0
  and, for an entry with a non-zero gid, the one its tileset gives for the destination
  \<open>(Math.round(x), Math.round(y - height))\<close>, fractional coordinates included, where
  \<open>x\<close>, \<open>y\<close> and \<open>height\<close> are the double-precision numbers the program holds,
  \<open>y - height\<close> is their double-precision difference, not the exact one, and a tie rounds
  towards plus infinity.
\<close>

theorem renderLayer_object_draws:
  assumes "isObjectLayer l"
    and "\<forall>obj \<in> set (objectsData l). obj_gid obj \<noteq> 0 \<longrightarrow> getTileset (tilesets l) (obj_gid obj) \<noteq> None"
  shows "\<exists>l'. renderLayer env l = Normal l' \<and>
     map_option bm_blits (layerBitmap l') =
       Some (bm_blits (allocated l) @ spec_object_draws (tilesets l) (objectsData l))"
proof -
  let ?l0 = "l\<lparr>layerBitmap := Some (allocated l)\<rparr>"
  let ?b1 = "(allocated l)\<lparr>bm_blits := bm_blits (allocated l) @
             spec_object_draws (tilesets l) (objectsData l)\<rparr>"
  let ?l1 = "l\<lparr>layerBitmap := Some ?b1\<rparr>"
  have loop: "objectLoop (objectsData ?l0) ?l0 = Normal ?l1"
    using objectLoop_draws[of ?l0 "allocated l" "objectsData l"] assms
    by (simp add: objectsData_def)
  obtain l2 where l2: "renderLoopLayer env ?l1 = Normal l2" "layerBitmap l2 = Some ?b1" "data l2 = data l"
    using renderLoopLayer_Some[of ?l1 ?b1 env] by auto
  have obj: "renderObjectLayer env ?l0 = Normal l2"
    by (simp add: renderObjectLayer_def loop l2)
  have ty: "ld_type (data l) = ''objectgroup''" using assms(1) by (simp add: isObjectLayer_def)
  have "renderLayer env l = Normal l2"
    using obj l2(3) ty
    by (simp add: renderLayer_def allocated_def isObjectLayer_def isTileLayer_def isImageLayer_def
        isPlaneLayer_def)
  then show ?thesis using l2(2) by simp
qed

text \<open>
  The example object layer holds the object of the specification's example, x = 10.5,
  y = 50.4, height = 20.2, drawn at (11, 30); an object with gid 0, not drawn; and an object
  with x = -2.5, y = 10, height = 48, drawn at (-2, -38).
\<close>

theorem renderLayer_object_draws_witness:
  "\<exists>l'. renderLayer exEnv exObjectLayer = Normal l' \<and>
     map_option bm_blits (layerBitmap l') =
       Some [TileParams (''A'', 1, Fin 11, Fin 30), TileParams (''B'', 6, Fin (- 2), Fin (- 38))]"
proof -
  have h1: "isObjectLayer exObjectLayer"
    by (simp add: example_defs predicate_defs)
  have h2: "\<forall>obj \<in> set (objectsData exObjectLayer).
      obj_gid obj \<noteq> 0 \<longrightarrow> getTileset (tilesets exObjectLayer) (obj_gid obj) \<noteq> None"
    by (simp add: example_defs objectsData_def)
  note r = round_example_x round_example_y round_example_negative
  from renderLayer_object_draws[OF h1 h2, of exEnv] show ?thesis
    by (simp add: example_defs allocated_def Bitmap_new_def objectsData_def spec_object_draws_def
        drawCall_def objectDestination_def r)
qed

text \<open>
  The claim as first stated is about every object layer. In the layer whose objects have
  the gids 9 and 1 no tileset holds tile 9: the call for the first object throws, and the
  second object, whose gid is not zero and is held by a tileset, is never drawn. And the
  difference is not that of the exact numbers: the object with y = 0.7 and height = 0.2 is
  drawn at Y = 0, the doubles' difference being just below one half, where the exact
  difference, one half, rounds to 1.
\<close>

theorem renderLayer_object_draws_counterexample:
  "isObjectLayer exBadObjectLayer
   \<and> map obj_gid (objectsData exBadObjectLayer) = [9, 1]
   \<and> getTileset (tilesets exBadObjectLayer) 1 = Some exTilesetA
   \<and> renderLayer exEnv exBadObjectLayer =
       Throws TypeError (exBadObjectLayer\<lparr>layerBitmap := Some (Bitmap_new 96 96)\<rparr>)
   \<and> bm_blits (Bitmap_new 96 96 :: params Bitmap) = []
   \<and> isObjectLayer exHalfLayer
   \<and> objectsData exHalfLayer =
       [\<lparr>obj_gid = 1, obj_x = 5 / 2, obj_y = 7 / 10, obj_height = 1 / 5\<rparr>]
   \<and> (case renderLayer exEnv exHalfLayer of
        Normal l' \<Rightarrow> map_option bm_blits (layerBitmap l') = Some [TileParams (''A'', 1, Fin 3, Fin 0)]
      | Throws e l' \<Rightarrow> False)
   \<and> round (7 / 10 - 1 / 5 :: rat) = 1"
proof -
  note r = round_example_half
  have e: "round (7 / 10 - 1 / 5 :: rat) = 1"
    by (simp add: round_def floor_unique)
  show ?thesis
    unfolding e by (simp add: example_defs predicate_defs render_defs r)
qed

subsection \<open>C4: scrolling on update\<close>




subsection \<open>C5: a layer of unknown type\<close>

text \<open>
  Claim C5, as amended: for every layer whose \<^verbatim>\<open>data.type\<close> is none of \<^verbatim>\<open>tilelayer\<close>,
  \<^verbatim>\<open>objectgroup\<close> and \<^verbatim>\<open>imagelayer\<close>, \<^verbatim>\<open>renderLayer\<close> triggers none of the four strategies and
  does not throw; it creates no tiling surface, draws nothing and leaves the node without
  visible content; its only effect is to create the backing bitmap when the layer has none.
\<close>

theorem renderLayer_unknown_type:
  assumes "ld_type (data l) \<noteq> ''tilelayer''" "ld_type (data l) \<noteq> ''objectgroup''"
    and "ld_type (data l) \<noteq> ''imagelayer''"
  shows "renderLayer env l = Normal (l\<lparr>layerBitmap := Some (allocated l)\<rparr>)"
  using assms
  by (simp add: renderLayer_def allocated_def isObjectLayer_def isTileLayer_def isImageLayer_def
      isPlaneLayer_def)

theorem renderLayer_unknown_type_witness:
  "renderLayer exEnv exUnknownLayer = Normal (exUnknownLayer\<lparr>layerBitmap := Some (Bitmap_new 96 96)\<rparr>)
   \<and> tilingSprite exUnknownLayer = None \<and> bitmap exUnknownLayer = None
   \<and> children exUnknownLayer = []"
proof -
  have h: "ld_type (data exUnknownLayer) \<noteq> ''tilelayer''"
    "ld_type (data exUnknownLayer) \<noteq> ''objectgroup''"
    "ld_type (data exUnknownLayer) \<noteq> ''imagelayer''"
    by (simp_all add: example_defs)
  have a: "allocated exUnknownLayer = Bitmap_new 96 96"
    by (simp add: example_defs allocated_def gridHorz_def gridVert_def)
  from renderLayer_unknown_type[OF h, of exEnv] show ?thesis
    by (simp add: a) (simp add: example_defs)
qed

text \<open>
  The claim as first stated has no surface created. The layer of type \<^verbatim>\<open>group\<close> has no backing
  bitmap before \<^verbatim>\<open>renderLayer\<close> and a new bitmap of 96 by 96 after it.
\<close>

theorem renderLayer_unknown_type_counterexample:
  "ld_type (data exUnknownLayer) = ''group''
   \<and> layerBitmap exUnknownLayer = None
   \<and> (case renderLayer exEnv exUnknownLayer of
        Normal l' \<Rightarrow> layerBitmap l' = Some (Bitmap_new 96 96)
      | Throws e l' \<Rightarrow> False)"
  by (simp add: example_defs predicate_defs render_defs)

subsection \<open>C6: plane layers and image layers\<close>

text \<open>
  Claim C6, as amended: for every plane layer (an image layer whose properties hold a truthy
  \<^verbatim>\<open>parallax\<close> entry) \<^verbatim>\<open>renderLayer\<close> creates the backing bitmap when the layer has none, as
  it does for every layer, but draws nothing into it and does not make it the node's
  content: the image is wrapped directly in a tiling surface positioned at
  \<open>(data.x, data.y)\<close> and sized to the viewport. An image layer without \<^verbatim>\<open>parallax\<close> has the
  image drawn into the backing bitmap, which becomes the node's content.
\<close>

theorem renderLayer_plane_and_image:
  "(isPlaneLayer l \<longrightarrow>
      (\<exists>s. renderLayer env l =
             Normal (l\<lparr>layerBitmap := Some (allocated l), tilingSprite := Some s,
                       children := children l @ [s]\<rparr>)
        \<and> s = \<lparr>ts_bitmap = loadParserParallax env (ld_image (data l)),
               ts_x = ld_x (data l), ts_y = ld_y (data l),
               ts_width = Graphics_width env, ts_height = Graphics_height env,
               origin_x = Fin 0, origin_y = Fin 0\<rparr>))
   \<and> (isImageLayer l \<and> \<not> isPlaneLayer l \<longrightarrow>
      (\<exists>b'. renderLayer env l = Normal (l\<lparr>layerBitmap := Some b', bitmap := Some b'\<rparr>)
        \<and> b' = blt (ImageArgs (ld_image (data l)) 0 0
                      (bm_width (loadParserParallax env (ld_image (data l))))
                      (bm_height (loadParserParallax env (ld_image (data l))))
                      (ld_x (data l)) (ld_y (data l))) (allocated l)))"
  by (auto simp add: renderLayer_def allocated_def isObjectLayer_def isTileLayer_def
      isImageLayer_def isPlaneLayer_def renderPlaneLayer_def renderImageLayer_def move_def
      TilingSprite_new_def properties_def Let_def)

theorem renderLayer_plane_and_image_witness:
  "isPlaneLayer exPlaneLayer
   \<and> renderLayer exEnv exPlaneLayer =
       Normal (exPlaneLayer\<lparr>layerBitmap := Some (Bitmap_new 0 0),
                 tilingSprite := Some exPlaneSprite, children := [exPlaneSprite]\<rparr>)
   \<and> isImageLayer exImageLayer \<and> \<not> isPlaneLayer exImageLayer
   \<and> renderLayer exEnv exImageLayer =
       Normal (exImageLayer\<lparr>
         layerBitmap := Some (blt (ImageArgs ''sky'' 0 0 100 50 3 4) (Bitmap_new 96 96)),
         bitmap := Some (blt (ImageArgs ''sky'' 0 0 100 50 3 4) (Bitmap_new 96 96))\<rparr>)"
proof -
  have p: "isPlaneLayer exPlaneLayer"
    by (simp add: example_defs predicate_defs)
  have i: "isImageLayer exImageLayer \<and> \<not> isPlaneLayer exImageLayer"
    by (simp add: example_defs predicate_defs)
  have a: "allocated exPlaneLayer = Bitmap_new 0 0" "allocated exImageLayer = Bitmap_new 96 96"
    by (simp_all add: example_defs allocated_def gridHorz_def gridVert_def)
  from renderLayer_plane_and_image[of exPlaneLayer exEnv]
    renderLayer_plane_and_image[of exImageLayer exEnv] p i
  show ?thesis
    by (simp add: a) (simp add: example_defs Bitmap_new_def)
qed

text \<open>
  The claim as first stated has the backing bitmap never allocated for a plane layer. The
  example plane layer has none before \<^verbatim>\<open>renderLayer\<close> and a new, empty one after it.
\<close>

theorem renderLayer_plane_and_image_counterexample:
  "isPlaneLayer exPlaneLayer
   \<and> layerBitmap exPlaneLayer = None
   \<and> (case renderLayer exEnv exPlaneLayer of
        Normal l' \<Rightarrow> layerBitmap l' = Some (Bitmap_new 0 0)
      | Throws e l' \<Rightarrow> False)"
  by (simp add: example_defs predicate_defs render_defs)

subsection \<open>C7: tile resolution\<close>

text \<open>
  Claim C7: tile resolution scans the tileset list in order and returns the first tileset
  that reports holding the tile, and \<^verbatim>\<open>null\<close> when none does; for a tile held by no supplied
  tileset \<^verbatim>\<open>_drawTile\<close> calls \<^verbatim>\<open>getBlockTransferParams\<close> on that \<^verbatim>\<open>null\<close> and throws, the layer
  left as it was; nothing catches the error, so \<^verbatim>\<open>renderLayer\<close> throws on a tile layer or an
  object layer that refers to such a tile.
\<close>

theorem getTileset_first_or_null:
  "getTileset tss t = List.find (\<lambda>ts. isInTileset ts t) tss
   \<and> ((\<forall>ts \<in> set tss. \<not> isInTileset ts t) \<longrightarrow> getTileset tss t = None)
   \<and> ((\<forall>ts \<in> set (tilesets l). \<not> isInTileset ts t) \<longrightarrow> drawTile t x y l = Throws TypeError l)
   \<and> ((\<forall>ts \<in> set (tilesets l). \<not> isInTileset ts t) \<and> t \<noteq> 0
        \<and> (isTileLayer l \<and> t \<in> set (tilesData l)
            \<or> isObjectLayer l \<and> t \<in> set (map obj_gid (objectsData l)))
       \<longrightarrow> (\<exists>l'. renderLayer env l = Throws TypeError l'))"
proof -
  have 1: "getTileset tss t = List.find (\<lambda>ts. isInTileset ts t) tss"
    by (rule getTileset_find)
  have 2: "(\<forall>ts \<in> set tss. \<not> isInTileset ts t) \<longrightarrow> getTileset tss t = None"
    by (simp add: getTileset_None)
  have 3: "(\<forall>ts \<in> set (tilesets l). \<not> isInTileset ts t) \<longrightarrow> drawTile t x y l = Throws TypeError l"
    by (simp add: getTileset_None[symmetric] drawTile_unresolved)
  have 4: "(\<forall>ts \<in> set (tilesets l). \<not> isInTileset ts t) \<and> t \<noteq> 0
        \<and> (isTileLayer l \<and> t \<in> set (tilesData l)
            \<or> isObjectLayer l \<and> t \<in> set (map obj_gid (objectsData l)))
       \<longrightarrow> (\<exists>l'. renderLayer env l = Throws TypeError l')"
  proof
    assume a: "(\<forall>ts \<in> set (tilesets l). \<not> isInTileset ts t) \<and> t \<noteq> 0
        \<and> (isTileLayer l \<and> t \<in> set (tilesData l)
            \<or> isObjectLayer l \<and> t \<in> set (map obj_gid (objectsData l)))"
    then have n: "getTileset (tilesets l) t = None" by (simp add: getTileset_None)
    from a n have "isTileLayer l \<and> (\<exists>u \<in> set (tilesData l). u \<noteq> 0 \<and> getTileset (tilesets l) u = None)
       \<or> isObjectLayer l \<and> (\<exists>obj \<in> set (objectsData l).
            obj_gid obj \<noteq> 0 \<and> getTileset (tilesets l) (obj_gid obj) = None)"
      by auto
    then show "\<exists>l'. renderLayer env l = Throws TypeError l'"
      by (rule renderLayer_throws)
  qed
  from 1 2 3 4 show ?thesis by blast
qed

text \<open>
  With the tilesets of the examples, tile 6 is found in the second tileset and tile 9 in
  none; drawing tile 9 throws, and so does rendering the tile layer with the entries 9, 1.
\<close>

theorem getTileset_first_or_null_witness:
  "getTileset [exTilesetA, exTilesetB] 6 = Some exTilesetB
   \<and> getTileset [exTilesetA, exTilesetB] 9 = None
   \<and> drawTile 9 (Fin 0) (Fin 0) exBadTileLayer = Throws TypeError exBadTileLayer
   \<and> (\<exists>l'. renderLayer exEnv exBadTileLayer = Throws TypeError l')"
proof -
  have h: "\<forall>ts \<in> set [exTilesetA, exTilesetB]. \<not> isInTileset ts 9"
    by (simp add: example_defs)
  have t: "tilesets exBadTileLayer = [exTilesetA, exTilesetB]"
    by (simp add: example_defs)
  have f: "List.find (\<lambda>ts. isInTileset ts 6) [exTilesetA, exTilesetB] = Some exTilesetB"
    by (simp add: example_defs)
  have d: "isTileLayer exBadTileLayer" "9 \<in> set (tilesData exBadTileLayer)"
    by (simp_all add: example_defs predicate_defs tilesData_def)
  from getTileset_first_or_null[of "[exTilesetA, exTilesetB]" 6 exBadTileLayer "Fin 0" "Fin 0" exEnv]
    getTileset_first_or_null[of "[exTilesetA, exTilesetB]" 9 exBadTileLayer "Fin 0" "Fin 0" exEnv]
    h t f d
  show ?thesis by simp
qed

subsection \<open>C8: the size of the loop surface\<close>

text \<open>
  Claim C8: the tiling surface that \<^verbatim>\<open>_renderLoopLayer\<close> creates over the backing bitmap is as
  wide as the viewport if the map loops horizontally and as wide as the bitmap otherwise,
  and as high as the viewport if the map loops vertically and as high as the bitmap
  otherwise.
\<close>

theorem renderLoopLayer_size:
  assumes "layerBitmap l = Some b"
  shows "(let s = \<lparr>ts_bitmap = b, ts_x = 0, ts_y = 0,
                   ts_width = (if isLoopHorizontal env then Graphics_width env else bm_width b),
                   ts_height = (if isLoopVertical env then Graphics_height env else bm_height b),
                   origin_x = Fin 0, origin_y = Fin 0\<rparr>
          in renderLoopLayer env l = Normal (l\<lparr>tilingSprite := Some s, children := children l @ [s]\<rparr>))"
  using assms by (simp add: renderLoopLayer_def move_def TilingSprite_new_def Let_def)

text \<open>
  With a map that loops horizontally only, a viewport of 816 by 624 and a backing bitmap of
  96 by 96, the surface is 816 wide and 96 high.
\<close>

theorem renderLoopLayer_size_witness:
  "isLoopHorizontal exEnvH \<and> isLoopVertical exEnvH = False
   \<and> map_option (\<lambda>s. (ts_width s, ts_height s))
       (case renderLoopLayer exEnvH (exTileLayer\<lparr>layerBitmap := Some (Bitmap_new 96 96)\<rparr>) of
          Normal l' \<Rightarrow> tilingSprite l' | Throws e l' \<Rightarrow> None) = Some (816, 96)"
proof -
  have h: "layerBitmap (exTileLayer\<lparr>layerBitmap := Some (Bitmap_new 96 96)\<rparr>) = Some (Bitmap_new 96 96)"
    by simp
  from renderLoopLayer_size[OF h, of exEnvH] show ?thesis
    by (simp add: Let_def) (simp add: example_defs predicate_defs Bitmap_new_def)
qed

subsection \<open>C9: moveLoopLayer\<close>

text \<open>
  Claim C9: \<^verbatim>\<open>moveLoopLayer(x, y)\<close> changes nothing when the layer has no tiling surface; when
  it has one, it sets the scroll origin of the surface to \<open>(x, y)\<close> and nothing else; and any
  number \<open>n \<ge> 1\<close> of calls with the same arguments leaves the layer as one call does.
\<close>

theorem moveLoopLayer_sets_origin:
  "(tilingSprite l = None \<longrightarrow> moveLoopLayer x y l = l)
   \<and> (\<forall>s. tilingSprite l = Some s \<longrightarrow>
         moveLoopLayer x y l = l\<lparr>tilingSprite := Some (s\<lparr>origin_x := x, origin_y := y\<rparr>)\<rparr>)
   \<and> (0 < n \<longrightarrow> (moveLoopLayer x y ^^ n) l = moveLoopLayer x y l)"
  by (simp add: moveLoopLayer_funpow) (simp add: moveLoopLayer_def)

theorem moveLoopLayer_sets_origin_witness:
  "moveLoopLayer (Fin 7) (Fin 9) exPlaneLayer = exPlaneLayer
   \<and> moveLoopLayer (Fin 7) (Fin 9) exPlaneRendered =
       exPlaneRendered\<lparr>tilingSprite := Some (exPlaneSprite\<lparr>origin_x := Fin 7, origin_y := Fin 9\<rparr>)\<rparr>
   \<and> (moveLoopLayer (Fin 7) (Fin 9) ^^ 3) exPlaneRendered =
       moveLoopLayer (Fin 7) (Fin 9) exPlaneRendered"
proof -
  have h1: "tilingSprite exPlaneLayer = None"
    by (simp add: example_defs)
  have h2: "tilingSprite exPlaneRendered = Some exPlaneSprite"
    by (simp add: example_defs)
  have h3: "(0::nat) < 3" by simp
  from moveLoopLayer_sets_origin[of exPlaneLayer "Fin 7" "Fin 9" 3]
    moveLoopLayer_sets_origin[of exPlaneRendered "Fin 7" "Fin 9" 3] h1 h2 h3
  show ?thesis by blast
qed

subsection \<open>C10: a layer without a property bag\<close>

text \<open>
  Claim C10: for every layer whose data has no \<^verbatim>\<open>properties\<close>, the accessor returns the empty
  object, and each of \<^verbatim>\<open>isPlaneLayer\<close>, \<^verbatim>\<open>isCollisionLayer\<close>, \<^verbatim>\<open>isRegionLayer\<close> and
  \<^verbatim>\<open>isUpperLayer\<close> returns false without failing.
\<close>

theorem predicates_without_properties:
  assumes "ld_properties (data l) = None"
  shows "properties l = Map.empty \<and> isPlaneLayer l = False \<and> isCollisionLayer l = False
     \<and> isRegionLayer l = False \<and> isUpperLayer l = Inr False"
  using assms
  by (simp add: properties_def isPlaneLayer_def isCollisionLayer_def isRegionLayer_def
      isUpperLayer_def getProp_def)

theorem predicates_without_properties_witness:
  "ld_properties (data exImageLayer) = None
   \<and> properties exImageLayer = Map.empty \<and> isPlaneLayer exImageLayer = False
   \<and> isCollisionLayer exImageLayer = False \<and> isRegionLayer exImageLayer = False
   \<and> isUpperLayer exImageLayer = Inr False"
proof -
  have h: "ld_properties (data exImageLayer) = None"
    by (simp add: example_defs)
  from predicates_without_properties[OF h] h show ?thesis by simp
qed

end
